theory Spec2Isabelle
  imports Complex_Main "HOL-Library.Multiset"
begin

section \<open>The tourism data client: values, errors and the network\<close>

text \<open>
  The development follows \<^verbatim>\<open>lib/api/tour-api.ts\<close>, \<^verbatim>\<open>lib/api/stats-api.ts\<close>,
  \<^verbatim>\<open>lib/types/stats.ts\<close>, \<^verbatim>\<open>lib/types/tour.ts\<close> and the recommendation block of the detail page
  \<^verbatim>\<open>app/places/[contentId]/page.tsx\<close>.

  Conventions of the embedding.
  \<^item> A thrown value is a \<open>js_error\<close>; a function that may throw returns
    \<open>js_error + 'a\<close> with \<open>Inl\<close> for the thrown value.
  \<^item> \<^verbatim>\<open>fetch\<close> is an oracle: the outcome of the \<open>k\<close>-th call that one invocation of
    \<open>fetchWithRetry\<close> makes for a URL. Every call of \<^verbatim>\<open>fetch\<close> and of \<^verbatim>\<open>sleep\<close> is
    recorded in a trace of events.
  \<^item> \<^verbatim>\<open>process.env\<close> is a map from names to strings; \<^verbatim>\<open>typeof window === "undefined"\<close>
    is the flag \<open>server_side\<close>.
  \<^item> Counts are integers and their sums are integer sums (exact in binary64 below
    \<open>2^53\<close>); the percentage arithmetic is carried out in a model of binary64.
\<close>

subsection \<open>Errors\<close>

datatype js_error =
    Error string
  | TourApiError string "nat option" "js_error option"

fun message :: "js_error \<Rightarrow> string" where
  "message (Error m) = m"
| "message (TourApiError m sc orig) = m"

fun statusCode :: "js_error \<Rightarrow> nat option" where
  "statusCode (Error m) = None"
| "statusCode (TourApiError m sc orig) = sc"

fun is_TourApiError :: "js_error \<Rightarrow> bool" where
  "is_TourApiError (Error m) = False"
| "is_TourApiError (TourApiError m sc orig) = True"

subsection \<open>Numbers to strings\<close>

definition digit_char :: "nat \<Rightarrow> char" where
  "digit_char d = ''0123456789'' ! d"

fun show_nat :: "nat \<Rightarrow> string" where
  "show_nat n = (if n < 10 then [digit_char n] else show_nat (n div 10) @ [digit_char (n mod 10)])"

declare show_nat.simps [simp del]

definition show_int :: "int \<Rightarrow> string" where
  "show_int i = (if i < 0 then CHR ''-'' # show_nat (nat (- i)) else show_nat (nat i))"

subsection \<open>Responses, URLs and the trace\<close>

text \<open>
  The interface \<^verbatim>\<open>ApiResponse<T>\<close> of \<^verbatim>\<open>lib/types/tour.ts\<close>, the provider envelope
  \<^verbatim>\<open>{ response: { body: { items: { item: T | T[] }, totalCount?, numOfRows?, pageNo? } } }\<close>.
  Every field may be missing in what the provider sends, and \<open>parseApiResponse\<close> tests
  for it: \<open>item = None\<close> stands for a path \<^verbatim>\<open>data.response?.body?.items?.item\<close> that ends
  in \<^verbatim>\<open>undefined\<close> or \<^verbatim>\<open>null\<close>, as it does when the provider has no result and sends an
  empty \<^verbatim>\<open>items\<close>.
\<close>

datatype 'a item_value = Single 'a | Many "'a list"

record 'a api_body =
  item :: "'a item_value option"
  totalCount :: "int option"
  pageNo :: "nat option"
  numOfRows :: "nat option"

text \<open>
  A \<^verbatim>\<open>Response\<close> of \<^verbatim>\<open>fetch\<close>: \<open>json\<close> is what \<^verbatim>\<open>response.json()\<close> yields, \<open>Inl m\<close> when
  reading the body throws an \<^verbatim>\<open>Error\<close> with message \<open>m\<close>; \<open>ok\<close> is \<^verbatim>\<open>response.ok\<close>.
\<close>

record 'a Response =
  status :: nat
  statusText :: string
  json :: "string + 'a api_body"

definition ok :: "('a, 'z) Response_scheme \<Rightarrow> bool" where
  "ok response = (200 \<le> status response \<and> status response \<le> 299)"

text \<open>
  A URL is its path together with its query parameters in order. An event is a call of
  \<^verbatim>\<open>fetch\<close> or a call of \<^verbatim>\<open>sleep\<close> with its milliseconds; \<open>requests\<close> counts the calls of
  \<^verbatim>\<open>fetch\<close> in a trace and \<open>sleeps\<close> lists the delays.
\<close>

type_synonym url = "string \<times> (string \<times> string) list"

datatype 'a fetch_outcome = Responds "'a Response" | Rejects string

type_synonym 'a network = "url \<Rightarrow> nat \<Rightarrow> 'a fetch_outcome"

datatype event = Request url | Sleep nat

fun after :: "event list \<Rightarrow> 'r \<times> event list \<Rightarrow> 'r \<times> event list" where
  "after evs (r, tr) = (r, evs @ tr)"

definition requests :: "event list \<Rightarrow> nat" where
  "requests tr = length (filter (\<lambda>e. case e of Request u \<Rightarrow> True | Sleep ms \<Rightarrow> False) tr)"

definition sleeps :: "event list \<Rightarrow> nat list" where
  "sleeps tr = concat (map (\<lambda>e. case e of Request u \<Rightarrow> [] | Sleep ms \<Rightarrow> [ms]) tr)"

text \<open>The URLs that a trace requests, in order.\<close>

fun requested :: "event list \<Rightarrow> url list" where
  "requested [] = []"
| "requested (Request u # tr) = u # requested tr"
| "requested (Sleep ms # tr) = requested tr"

subsection \<open>fetchWithRetry\<close>

text \<open>
  The loop \<^verbatim>\<open>for (let attempt = 0; attempt <= maxRetries; attempt++)\<close> with its
  \<^verbatim>\<open>try\<close>/\<^verbatim>\<open>catch\<close>. A \<open>TourApiError\<close> thrown in the \<^verbatim>\<open>try\<close> block leaves the function;
  a rejected \<^verbatim>\<open>fetch\<close> becomes \<open>lastError\<close> and, at the last attempt, falls out of the loop
  to the final \<^verbatim>\<open>throw\<close>. \<open>last_message\<close> is \<^verbatim>\<open>${lastError?.message}\<close>. The delay
  \<^verbatim>\<open>Math.pow(2, attempt) * 1000\<close> is the integer \<open>2 ^ attempt * 1000\<close>, which binary64
  represents exactly for every attempt below 1000.
\<close>

definition last_message :: "js_error option \<Rightarrow> string" where
  "last_message lastError = (case lastError of None \<Rightarrow> ''undefined'' | Some e \<Rightarrow> message e)"

function fetchWithRetry_loop ::
  "'a network \<Rightarrow> url \<Rightarrow> int \<Rightarrow> nat \<Rightarrow> js_error option
     \<Rightarrow> (js_error + 'a Response) \<times> event list" where
  "fetchWithRetry_loop fetch u maxRetries attempt lastError =
     (if int attempt \<le> maxRetries then
        (case fetch u attempt of
           Responds response \<Rightarrow>
             if 400 \<le> status response \<and> status response < 500 then
               (Inl (TourApiError (''API request failed with status '' @ show_nat (status response))
                       (Some (status response)) None),
                [Request u])
             else if 500 \<le> status response then
               (if int attempt < maxRetries then
                  after [Request u, Sleep (2 ^ attempt * 1000)]
                    (fetchWithRetry_loop fetch u maxRetries (attempt + 1) lastError)
                else
                  (Inl (TourApiError (''API request failed with status '' @ show_nat (status response)
                                       @ '' after '' @ show_int maxRetries @ '' retries'')
                          (Some (status response)) None),
                   [Request u]))
             else (Inr response, [Request u])
         | Rejects m \<Rightarrow>
             if int attempt < maxRetries then
               after [Request u, Sleep (2 ^ attempt * 1000)]
                 (fetchWithRetry_loop fetch u maxRetries (attempt + 1) (Some (Error m)))
             else
               after [Request u]
                 (fetchWithRetry_loop fetch u maxRetries (attempt + 1) (Some (Error m))))
      else
        (Inl (TourApiError (''API request failed after '' @ show_int maxRetries @ '' retries: ''
                             @ last_message lastError)
                None lastError),
         []))"
  by pat_completeness auto
termination
  by (relation "measure (\<lambda>(fetch, u, maxRetries, attempt, lastError). nat (maxRetries + 1 - int attempt))")
     auto

declare fetchWithRetry_loop.simps [simp del]

definition fetchWithRetry ::
  "'a network \<Rightarrow> url \<Rightarrow> int \<Rightarrow> (js_error + 'a Response) \<times> event list" where
  "fetchWithRetry fetch u maxRetries = fetchWithRetry_loop fetch u maxRetries 0 None"

text \<open>The trace of a run in which every attempt from \<open>a\<close> on is answered with a 5xx status.\<close>

definition backoff_trace :: "url \<Rightarrow> nat \<Rightarrow> nat \<Rightarrow> event list" where
  "backoff_trace u a n =
     concat (map (\<lambda>k. [Request u, Sleep (2 ^ k * 1000)]) [a..<n]) @ [Request u]"

section \<open>The endpoint clients\<close>

subsection \<open>Credential, common parameters and URLs\<close>

record process =
  env :: "string \<rightharpoonup> string"
  server_side :: bool

text \<open>\<^verbatim>\<open>a || b\<close> on optional strings: the empty string and \<^verbatim>\<open>undefined\<close> are falsy.\<close>

definition js_or :: "string option \<Rightarrow> string option \<Rightarrow> string option" where
  "js_or a b = (case a of None \<Rightarrow> b | Some s \<Rightarrow> if s = [] then b else Some s)"

definition missing_key_message :: string where
  "missing_key_message =
     ''Tour API key is missing. Please set TOUR_API_KEY or NEXT_PUBLIC_TOUR_API_KEY environment variable.''"

definition getApiKey :: "process \<Rightarrow> js_error + string" where
  "getApiKey p =
     (let serverKey = (if server_side p then env p ''TOUR_API_KEY'' else None);
          publicKey = env p ''NEXT_PUBLIC_TOUR_API_KEY'';
          apiKey = js_or serverKey publicKey
      in case apiKey of
           None \<Rightarrow> Inl (TourApiError missing_key_message None None)
         | Some k \<Rightarrow> if k = [] then Inl (TourApiError missing_key_message None None) else Inr k)"

definition and_then :: "js_error + 'a \<Rightarrow> ('a \<Rightarrow> js_error + 'b) \<Rightarrow> js_error + 'b" where
  "and_then r f = (case r of Inl e \<Rightarrow> Inl e | Inr v \<Rightarrow> f v)"

definition handle :: "js_error + 'a \<Rightarrow> (js_error \<Rightarrow> js_error + 'a) \<Rightarrow> js_error + 'a" where
  "handle r h = (case r of Inl e \<Rightarrow> h e | Inr v \<Rightarrow> Inr v)"

definition getCommonParams :: "process \<Rightarrow> js_error + (string \<times> string option) list" where
  "getCommonParams p =
     and_then (getApiKey p) (\<lambda>k.
       Inr [(''serviceKey'', Some k), (''MobileOS'', Some ''ETC''),
            (''MobileApp'', Some ''MyTrip''), (''_type'', Some ''json'')])"

text \<open>
  An object is an association list in property order; writing a property that exists keeps
  its place, a new property goes to the end, as the spread \<^verbatim>\<open>{ ...a, ...b }\<close> does.
\<close>

fun assign :: "(string \<times> 'v) list \<Rightarrow> string \<Rightarrow> 'v \<Rightarrow> (string \<times> 'v) list" where
  "assign [] k v = [(k, v)]"
| "assign ((k', v') # kvs) k v = (if k' = k then (k, v) # kvs else (k', v') # assign kvs k v)"

definition spread :: "(string \<times> 'v) list \<Rightarrow> (string \<times> 'v) list \<Rightarrow> (string \<times> 'v) list" where
  "spread a b = foldl (\<lambda>obj (k, v). assign obj k v) a b"

definition BASE_URL :: string where
  "BASE_URL = ''https://apis.data.go.kr/B551011/KorService2''"

text \<open>
  A URL is kept as its path and the list of query parameters that
  \<^verbatim>\<open>URLSearchParams\<close> serialises; an \<^verbatim>\<open>undefined\<close> value is \<open>None\<close> and is dropped.
\<close>

definition buildUrl :: "process \<Rightarrow> string \<Rightarrow> (string \<times> string option) list \<Rightarrow> js_error + url" where
  "buildUrl p endpoint params =
     and_then (getCommonParams p) (\<lambda>commonParams.
       let allParams = spread commonParams params;
           filteredParams = concat (map (\<lambda>(key, value). case value of None \<Rightarrow> [] | Some v \<Rightarrow> [(key, v)]) allParams)
       in Inr (BASE_URL @ endpoint, filteredParams))"

text \<open>
  A trace carries the key \<open>k\<close> to an endpoint when it makes a request and every request
  goes to the path of the endpoint with the parameter \<^verbatim>\<open>serviceKey\<close> equal to \<open>k\<close>.
\<close>

definition carries_key :: "string \<Rightarrow> string \<Rightarrow> event list \<Rightarrow> bool" where
  "carries_key k endpoint tr \<longleftrightarrow>
     requested tr \<noteq> []
   \<and> list_all (\<lambda>u. fst u = BASE_URL @ endpoint \<and> map_of (snd u) ''serviceKey'' = Some k)
        (requested tr)"

subsection \<open>Parsing the envelope\<close>

definition parseApiResponse :: "('a, 'z) api_body_scheme \<Rightarrow> js_error + 'a item_value" where
  "parseApiResponse data =
     (case item data of
        None \<Rightarrow> Inl (TourApiError ''Invalid API response: items.item is missing'' None None)
      | Some items \<Rightarrow> Inr items)"

fun normalizeToArray :: "'a item_value \<Rightarrow> 'a list" where
  "normalizeToArray (Many xs) = xs"
| "normalizeToArray (Single x) = [x]"

definition response_json :: "'a Response \<Rightarrow> js_error + 'a api_body" where
  "response_json response = (case json response of Inl m \<Rightarrow> Inl (Error m) | Inr data \<Rightarrow> Inr data)"

text \<open>The first two statements of every client: build the URL, then fetch it with the default of 3 retries.\<close>

definition request ::
  "process \<Rightarrow> 'a network \<Rightarrow> string \<Rightarrow> (string \<times> string option) list
     \<Rightarrow> (js_error + 'a Response) \<times> event list" where
  "request p fetch endpoint params =
     (case buildUrl p endpoint params of
        Inl e \<Rightarrow> (Inl e, [])
      | Inr u \<Rightarrow> fetchWithRetry fetch u 3)"

text \<open>The common \<^verbatim>\<open>catch\<close> block: a \<open>TourApiError\<close> is thrown on, anything else is wrapped.\<close>

definition rethrow_or_wrap :: "string \<Rightarrow> js_error \<Rightarrow> js_error + 'a" where
  "rethrow_or_wrap prefix error =
     (if is_TourApiError error then Inl error
      else Inl (TourApiError (prefix @ message error) None (Some error)))"

text \<open>\<^verbatim>\<open>a || b\<close> on numbers: \<^verbatim>\<open>undefined\<close> and 0 are falsy.\<close>

definition int_or :: "int option \<Rightarrow> int \<Rightarrow> int" where
  "int_or a b = (case a of None \<Rightarrow> b | Some n \<Rightarrow> if n = 0 then b else n)"

definition nat_or :: "nat option \<Rightarrow> nat \<Rightarrow> nat" where
  "nat_or a b = (case a of None \<Rightarrow> b | Some n \<Rightarrow> if n = 0 then b else n)"

text \<open>\<^verbatim>\<open>String.prototype.includes\<close>.\<close>

fun starts_with :: "string \<Rightarrow> string \<Rightarrow> bool" where
  "starts_with s [] = True"
| "starts_with [] (c # cs) = False"
| "starts_with (d # ds) (c # cs) = (d = c \<and> starts_with ds cs)"

fun includes_str :: "string \<Rightarrow> string \<Rightarrow> bool" where
  "includes_str [] sub = (sub = [])"
| "includes_str (d # ds) sub = (starts_with (d # ds) sub \<or> includes_str ds sub)"

subsection \<open>areaCode2\<close>

record GetAreaCodeParams =
  numOfRows :: "nat option"
  pageNo :: "nat option"
  areaCode :: "string option"

definition GetAreaCodeParams_entries :: "GetAreaCodeParams option \<Rightarrow> (string \<times> string option) list" where
  "GetAreaCodeParams_entries params =
     (case params of
        None \<Rightarrow> []
      | Some ps \<Rightarrow>
          [(''numOfRows'', map_option show_nat (GetAreaCodeParams.numOfRows ps)),
           (''pageNo'', map_option show_nat (GetAreaCodeParams.pageNo ps)),
           (''areaCode'', GetAreaCodeParams.areaCode ps)])"

definition getAreaCode_request ::
  "process \<Rightarrow> 'a network \<Rightarrow> GetAreaCodeParams option \<Rightarrow> (js_error + 'a Response) \<times> event list" where
  "getAreaCode_request p fetch params = request p fetch ''/areaCode2'' (GetAreaCodeParams_entries params)"

definition getAreaCode ::
  "process \<Rightarrow> 'a network \<Rightarrow> GetAreaCodeParams option \<Rightarrow> (js_error + 'a list) \<times> event list" where
  "getAreaCode p fetch params =
     (case getAreaCode_request p fetch params of
        (fetched, tr) \<Rightarrow>
          (handle
             (and_then fetched (\<lambda>response.
                if \<not> ok response then
                  Inl (TourApiError (''Failed to fetch area codes: '' @ statusText response)
                         (Some (status response)) None)
                else
                  and_then (response_json response) (\<lambda>data.
                  and_then (parseApiResponse data) (\<lambda>items.
                    Inr (normalizeToArray items)))))
             (rethrow_or_wrap ''Failed to get area codes: ''),
           tr))"

subsection \<open>areaBasedList2 and searchKeyword2\<close>

text \<open>
  The interface \<^verbatim>\<open>ListResponse<T>\<close> of \<^verbatim>\<open>lib/types/tour.ts\<close>:
  \<^verbatim>\<open>{ items: T[]; totalCount: number; pageNo?: number; numOfRows?: number }\<close>.
\<close>

record 'a ListResponse =
  items :: "'a list"
  totalCount :: int
  pageNo :: "nat option"
  numOfRows :: "nat option"

record GetAreaBasedListParams =
  areaCode :: "string option"
  contentTypeId :: "string option"
  numOfRows :: "nat option"
  pageNo :: "nat option"
  sigunguCode :: "string option"
  cat1 :: "string option"
  cat2 :: "string option"
  cat3 :: "string option"

text \<open>
  \<^verbatim>\<open>const { numOfRows = 10, pageNo = 1, ...restParams } = params\<close>; the rest keeps the
  order in which the callers of this repository write the properties.
\<close>

definition getAreaBasedList_request ::
  "process \<Rightarrow> 'a network \<Rightarrow> GetAreaBasedListParams \<Rightarrow> (js_error + 'a Response) \<times> event list" where
  "getAreaBasedList_request p fetch params =
     (let numOfRows = (case GetAreaBasedListParams.numOfRows params of None \<Rightarrow> 10 | Some n \<Rightarrow> n);
          pageNo = (case GetAreaBasedListParams.pageNo params of None \<Rightarrow> 1 | Some n \<Rightarrow> n);
          restParams =
            [(''areaCode'', GetAreaBasedListParams.areaCode params),
             (''contentTypeId'', GetAreaBasedListParams.contentTypeId params),
             (''sigunguCode'', sigunguCode params),
             (''cat1'', cat1 params), (''cat2'', cat2 params), (''cat3'', cat3 params)]
      in request p fetch ''/areaBasedList2''
           (spread [(''numOfRows'', Some (show_nat numOfRows)), (''pageNo'', Some (show_nat pageNo))]
              restParams))"

definition getAreaBasedList ::
  "process \<Rightarrow> 'a network \<Rightarrow> GetAreaBasedListParams \<Rightarrow> (js_error + 'a ListResponse) \<times> event list" where
  "getAreaBasedList p fetch params =
     (let numOfRows = (case GetAreaBasedListParams.numOfRows params of None \<Rightarrow> 10 | Some n \<Rightarrow> n);
          pageNo = (case GetAreaBasedListParams.pageNo params of None \<Rightarrow> 1 | Some n \<Rightarrow> n)
      in case getAreaBasedList_request p fetch params of
        (fetched, tr) \<Rightarrow>
          (handle
             (and_then fetched (\<lambda>response.
                if \<not> ok response then
                  Inl (TourApiError (''Failed to fetch area based list: '' @ statusText response)
                         (Some (status response)) None)
                else
                  and_then (response_json response) (\<lambda>data.
                  and_then (parseApiResponse data) (\<lambda>items.
                    let normalizedItems = normalizeToArray items
                    in Inr \<lparr>items = normalizedItems,
                            totalCount = int_or (api_body.totalCount data) (int (length normalizedItems)),
                            pageNo = Some (nat_or (api_body.pageNo data) pageNo),
                            numOfRows = Some (nat_or (api_body.numOfRows data) numOfRows)\<rparr>))))
             (rethrow_or_wrap ''Failed to get area based list: ''),
           tr))"

record SearchKeywordParams =
  keyword :: string
  areaCode :: "string option"
  contentTypeId :: "string option"
  numOfRows :: "nat option"
  pageNo :: "nat option"

definition searchKeyword_request ::
  "process \<Rightarrow> 'a network \<Rightarrow> SearchKeywordParams \<Rightarrow> (js_error + 'a Response) \<times> event list" where
  "searchKeyword_request p fetch params =
     (let numOfRows = (case SearchKeywordParams.numOfRows params of None \<Rightarrow> 10 | Some n \<Rightarrow> n);
          pageNo = (case SearchKeywordParams.pageNo params of None \<Rightarrow> 1 | Some n \<Rightarrow> n);
          restParams =
            [(''keyword'', Some (keyword params)),
             (''areaCode'', SearchKeywordParams.areaCode params),
             (''contentTypeId'', SearchKeywordParams.contentTypeId params)]
      in request p fetch ''/searchKeyword2''
           (spread [(''numOfRows'', Some (show_nat numOfRows)), (''pageNo'', Some (show_nat pageNo))]
              restParams))"

definition searchKeyword ::
  "process \<Rightarrow> 'a network \<Rightarrow> SearchKeywordParams \<Rightarrow> (js_error + 'a ListResponse) \<times> event list" where
  "searchKeyword p fetch params =
     (case searchKeyword_request p fetch params of
        (fetched, tr) \<Rightarrow>
          (handle
             (and_then fetched (\<lambda>response.
                if \<not> ok response then
                  Inl (TourApiError (''Failed to search keyword: '' @ statusText response)
                         (Some (status response)) None)
                else
                  and_then (response_json response) (\<lambda>data.
                  and_then (parseApiResponse data) (\<lambda>items.
                    let normalizedItems = normalizeToArray items
                    in Inr \<lparr>items = normalizedItems,
                            totalCount = int_or (api_body.totalCount data) (int (length normalizedItems)),
                            pageNo = None,
                            numOfRows = None\<rparr>))))
             (rethrow_or_wrap ''Failed to search keyword: ''),
           tr))"

subsection \<open>detailCommon2 and detailIntro2\<close>

record GetDetailCommonParams =
  contentId :: string
  contentTypeId :: "string option"
  defaultYN :: "string option"
  firstImageYN :: "string option"
  areacodeYN :: "string option"
  catcodeYN :: "string option"
  addrinfoYN :: "string option"
  mapinfoYN :: "string option"
  overviewYN :: "string option"

definition getDetailCommon_request ::
  "process \<Rightarrow> 'a network \<Rightarrow> GetDetailCommonParams \<Rightarrow> (js_error + 'a Response) \<times> event list" where
  "getDetailCommon_request p fetch params =
     request p fetch ''/detailCommon2''
       [(''contentId'', Some (GetDetailCommonParams.contentId params)),
        (''contentTypeId'', GetDetailCommonParams.contentTypeId params),
        (''defaultYN'', defaultYN params), (''firstImageYN'', firstImageYN params),
        (''areacodeYN'', areacodeYN params), (''catcodeYN'', catcodeYN params),
        (''addrinfoYN'', addrinfoYN params), (''mapinfoYN'', mapinfoYN params),
        (''overviewYN'', overviewYN params)]"

definition getDetailCommon ::
  "process \<Rightarrow> 'a network \<Rightarrow> GetDetailCommonParams \<Rightarrow> (js_error + 'a) \<times> event list" where
  "getDetailCommon p fetch params =
     (case getDetailCommon_request p fetch params of
        (fetched, tr) \<Rightarrow>
          (handle
             (and_then fetched (\<lambda>response.
                if \<not> ok response then
                  Inl (TourApiError (''Failed to fetch detail common: '' @ statusText response)
                         (Some (status response)) None)
                else
                  and_then (response_json response) (\<lambda>data.
                  and_then (parseApiResponse data) (\<lambda>items.
                    case normalizeToArray items of
                      [] \<Rightarrow> Inl (TourApiError (''Tour detail not found for contentId: ''
                                                 @ GetDetailCommonParams.contentId params)
                                    (Some 404) None)
                    | first # others \<Rightarrow> Inr first))))
             (rethrow_or_wrap ''Failed to get detail common: ''),
           tr))"

record GetDetailIntroParams =
  contentId :: string
  contentTypeId :: string

definition getDetailIntro_request ::
  "process \<Rightarrow> 'a network \<Rightarrow> GetDetailIntroParams \<Rightarrow> (js_error + 'a Response) \<times> event list" where
  "getDetailIntro_request p fetch params =
     request p fetch ''/detailIntro2''
       [(''contentId'', Some (GetDetailIntroParams.contentId params)),
        (''contentTypeId'', Some (GetDetailIntroParams.contentTypeId params))]"

definition getDetailIntro ::
  "process \<Rightarrow> 'a network \<Rightarrow> GetDetailIntroParams \<Rightarrow> (js_error + 'a) \<times> event list" where
  "getDetailIntro p fetch params =
     (case getDetailIntro_request p fetch params of
        (fetched, tr) \<Rightarrow>
          (handle
             (and_then fetched (\<lambda>response.
                if \<not> ok response then
                  Inl (TourApiError (''Failed to fetch detail intro: '' @ statusText response)
                         (Some (status response)) None)
                else
                  and_then (response_json response) (\<lambda>data.
                  and_then (parseApiResponse data) (\<lambda>items.
                    case normalizeToArray items of
                      [] \<Rightarrow> Inl (TourApiError (''Tour intro not found for contentId: ''
                                                 @ GetDetailIntroParams.contentId params)
                                    (Some 404) None)
                    | first # others \<Rightarrow> Inr first))))
             (rethrow_or_wrap ''Failed to get detail intro: ''),
           tr))"

subsection \<open>detailImage2 and detailPetTour2\<close>

record GetDetailImageParams =
  contentId :: string
  imageYN :: "string option"
  subImageYN :: "string option"

definition getDetailImage_request ::
  "process \<Rightarrow> 'a network \<Rightarrow> GetDetailImageParams \<Rightarrow> (js_error + 'a Response) \<times> event list" where
  "getDetailImage_request p fetch params =
     request p fetch ''/detailImage2''
       [(''contentId'', Some (GetDetailImageParams.contentId params)),
        (''imageYN'', imageYN params), (''subImageYN'', subImageYN params)]"

definition getDetailImage ::
  "process \<Rightarrow> 'a network \<Rightarrow> GetDetailImageParams \<Rightarrow> (js_error + 'a list) \<times> event list" where
  "getDetailImage p fetch params =
     (case getDetailImage_request p fetch params of
        (fetched, tr) \<Rightarrow>
          (handle
             (and_then fetched (\<lambda>response.
                if \<not> ok response then
                  (if status response = 404 then Inr []
                   else Inl (TourApiError (''Failed to fetch detail image: '' @ statusText response)
                               (Some (status response)) None))
                else
                  and_then (response_json response) (\<lambda>data.
                    if item data = None then Inr []
                    else
                      and_then (parseApiResponse data) (\<lambda>items.
                        Inr (normalizeToArray items)))))
             (\<lambda>error.
                if is_TourApiError error \<and> includes_str (message error) ''items.item is missing'' then Inr []
                else rethrow_or_wrap ''Failed to get detail image: '' error),
           tr))"

record GetDetailPetTourParams =
  contentId :: string

definition getDetailPetTour_request ::
  "process \<Rightarrow> 'a network \<Rightarrow> GetDetailPetTourParams \<Rightarrow> (js_error + 'a Response) \<times> event list" where
  "getDetailPetTour_request p fetch params =
     request p fetch ''/detailPetTour2''
       [(''contentId'', Some (GetDetailPetTourParams.contentId params))]"

definition getDetailPetTour ::
  "process \<Rightarrow> 'a network \<Rightarrow> GetDetailPetTourParams \<Rightarrow> (js_error + 'a option) \<times> event list" where
  "getDetailPetTour p fetch params =
     (case getDetailPetTour_request p fetch params of
        (fetched, tr) \<Rightarrow>
          (handle
             (and_then fetched (\<lambda>response.
                if \<not> ok response then
                  (if status response = 404 then Inr None
                   else Inl (TourApiError (''Failed to fetch pet tour info: '' @ statusText response)
                               (Some (status response)) None))
                else
                  and_then (response_json response) (\<lambda>data.
                    if item data = None then Inr None
                    else
                      and_then (parseApiResponse data) (\<lambda>items.
                        case normalizeToArray items of
                          [] \<Rightarrow> Inr None
                        | first # others \<Rightarrow> Inr (Some first)))))
             (\<lambda>error.
                if is_TourApiError error \<and> includes_str (message error) ''items.item is missing'' then Inr None
                else if is_TourApiError error \<and> statusCode error = Some 404 then Inr None
                else rethrow_or_wrap ''Failed to get pet tour info: '' error),
           tr))"

section \<open>The aggregator\<close>

subsection \<open>binary64 arithmetic\<close>

text \<open>
  A finite JavaScript number is the rational it denotes. \<open>fl\<close> rounds a rational to the
  nearest binary64 value (53 significant bits, ties to even); it is exact about IEEE 754
  for results in the normal range, which the percentages of \<open>getTypeStats\<close> never leave.
  \<^verbatim>\<open>a / b\<close> is \<open>fl (a / b)\<close>, \<^verbatim>\<open>a * b\<close> is \<open>fl (a * b)\<close>, and \<^verbatim>\<open>Math.round(x)\<close> is
  \<open>\<lfloor>x + 1/2\<rfloor>\<close>, computed exactly.
\<close>

function bitlen :: "int \<Rightarrow> int" where
  "bitlen n = (if n \<le> 0 then 0 else 1 + bitlen (n div 2))"
  by pat_completeness auto
termination
  by (relation "measure nat") auto

declare bitlen.simps [simp del]

definition pow2 :: "int \<Rightarrow> rat" where
  "pow2 e = (if 0 \<le> e then 2 ^ nat e else 1 / 2 ^ nat (- e))"

text \<open>\<open>ilog2 q\<close> is the exponent \<open>e\<close> with \<open>2^e \<le> |q| < 2^(e+1)\<close>, for \<open>q \<noteq> 0\<close>.\<close>

definition ilog2 :: "rat \<Rightarrow> int" where
  "ilog2 q =
     (case quotient_of \<bar>q\<bar> of
        (a, b) \<Rightarrow>
          let d = bitlen a - bitlen b
          in if pow2 d \<le> \<bar>q\<bar> then d else d - 1)"

definition round_half_even :: "rat \<Rightarrow> int" where
  "round_half_even x =
     (let n = \<lfloor>x\<rfloor>; r = x - of_int n
      in if r < 1 / 2 then n else if 1 / 2 < r then n + 1 else if even n then n else n + 1)"

definition fl :: "rat \<Rightarrow> rat" where
  "fl q =
     (if q = 0 then 0
      else let e = ilog2 q - 52 in of_int (round_half_even (q / pow2 e)) * pow2 e)"

definition Math_round :: "rat \<Rightarrow> int" where
  "Math_round x = \<lfloor>x + 1 / 2\<rfloor>"

subsection \<open>Types of the statistics\<close>

text \<open>
  The interface \<^verbatim>\<open>AreaCode\<close> of \<^verbatim>\<open>lib/types/tour.ts\<close> with the two fields that
  \<open>getRegionStats\<close> reads; the optional \<^verbatim>\<open>rnum\<close> is in the extension of the record. The
  other three records are the interfaces of \<^verbatim>\<open>lib/types/stats.ts\<close>.
\<close>

record AreaCode =
  code :: string
  name :: string

record RegionStats =
  code :: string
  name :: string
  count :: int

record TypeStats =
  contentTypeId :: string
  typeName :: string
  count :: int
  percentage :: "rat option"

record StatsSummary =
  totalCount :: int
  topRegions :: "RegionStats list"
  topTypes :: "TypeStats list"
  lastUpdated :: string

text \<open>
  \<^verbatim>\<open>CONTENT_TYPES\<close> in the order of \<^verbatim>\<open>Object.values\<close>; the Korean names are kept as
  their UTF-8 bytes.
\<close>

definition CONTENT_TYPES :: "(string \<times> string) list" where
  "CONTENT_TYPES =
     [(''12'', [CHR 0xEA, CHR 0xB4, CHR 0x80, CHR 0xEA, CHR 0xB4, CHR 0x91, CHR 0xEC, CHR 0xA7, CHR 0x80]),
      (''14'', [CHR 0xEB, CHR 0xAC, CHR 0xB8, CHR 0xED, CHR 0x99, CHR 0x94, CHR 0xEC, CHR 0x8B, CHR 0x9C, CHR 0xEC, CHR 0x84, CHR 0xA4]),
      (''15'', [CHR 0xEC, CHR 0xB6, CHR 0x95, CHR 0xEC, CHR 0xA0, CHR 0x9C, CHR 0x2F, CHR 0xED, CHR 0x96, CHR 0x89, CHR 0xEC, CHR 0x82, CHR 0xAC]),
      (''25'', [CHR 0xEC, CHR 0x97, CHR 0xAC, CHR 0xED, CHR 0x96, CHR 0x89, CHR 0xEC, CHR 0xBD, CHR 0x94, CHR 0xEC, CHR 0x8A, CHR 0xA4]),
      (''28'', [CHR 0xEB, CHR 0xA0, CHR 0x88, CHR 0xED, CHR 0x8F, CHR 0xAC, CHR 0xEC, CHR 0xB8, CHR 0xA0]),
      (''32'', [CHR 0xEC, CHR 0x88, CHR 0x99, CHR 0xEB, CHR 0xB0, CHR 0x95]),
      (''38'', [CHR 0xEC, CHR 0x87, CHR 0xBC, CHR 0xED, CHR 0x95, CHR 0x91]),
      (''39'', [CHR 0xEC, CHR 0x9D, CHR 0x8C, CHR 0xEC, CHR 0x8B, CHR 0x9D, CHR 0xEC, CHR 0xA0, CHR 0x90])]"

definition getAllContentTypes :: "(string \<times> string) list" where
  "getAllContentTypes = CONTENT_TYPES"

text \<open>The parameters \<^verbatim>\<open>{ areaCode, contentTypeId, numOfRows, pageNo }\<close> of a list query.\<close>

definition list_query ::
  "string option \<Rightarrow> string option \<Rightarrow> nat \<Rightarrow> nat \<Rightarrow> GetAreaBasedListParams" where
  "list_query area type rows page =
     \<lparr>GetAreaBasedListParams.areaCode = area, GetAreaBasedListParams.contentTypeId = type,
      GetAreaBasedListParams.numOfRows = Some rows, GetAreaBasedListParams.pageNo = Some page,
      sigunguCode = None, cat1 = None, cat2 = None, cat3 = None\<rparr>"

text \<open>\<^verbatim>\<open>results.filter((r) => r !== null)\<close>.\<close>

definition non_null :: "'a option list \<Rightarrow> 'a list" where
  "non_null results = concat (map (\<lambda>r. case r of None \<Rightarrow> [] | Some v \<Rightarrow> [v]) results)"

subsection \<open>getRegionStats\<close>

text \<open>
  The one \<^verbatim>\<open>fetch\<close> of the program appears as one oracle for each payload type: the
  paths of the endpoints are different, so each oracle is \<^verbatim>\<open>fetch\<close> on the URLs of its
  endpoint. The branches of \<^verbatim>\<open>Promise.all\<close> do not share state, so each is the
  sequential call.
\<close>

definition region_query ::
  "process \<Rightarrow> 'b network \<Rightarrow> ('z) AreaCode_scheme \<Rightarrow> RegionStats option" where
  "region_query p fetch_list area =
     (case fst (getAreaBasedList p fetch_list (list_query (Some (AreaCode.code area)) None 1 1)) of
        Inr result \<Rightarrow>
          Some \<lparr>RegionStats.code = AreaCode.code area, RegionStats.name = AreaCode.name area,
                RegionStats.count = ListResponse.totalCount result\<rparr>
      | Inl error \<Rightarrow> None)"

definition getRegionStats ::
  "process \<Rightarrow> ('z AreaCode_scheme) network \<Rightarrow> 'b network \<Rightarrow> js_error + RegionStats list" where
  "getRegionStats p fetch_area fetch_list =
     handle
       (and_then (fst (getAreaCode p fetch_area None)) (\<lambda>areaCodes.
          let results = map (region_query p fetch_list) areaCodes;
              validResults = non_null results
          in if length validResults = 0 then
               Inl (TourApiError ''Failed to get region stats: All area queries failed'' None None)
             else Inr validResults))
       (rethrow_or_wrap ''Failed to get region stats: '')"

subsection \<open>getTypeStats\<close>

definition type_query ::
  "process \<Rightarrow> 'b network \<Rightarrow> string \<times> string \<Rightarrow> TypeStats option" where
  "type_query p fetch_list type =
     (case fst (getAreaBasedList p fetch_list (list_query None (Some (fst type)) 1 1)) of
        Inr result \<Rightarrow>
          Some \<lparr>TypeStats.contentTypeId = fst type, TypeStats.typeName = snd type,
                TypeStats.count = ListResponse.totalCount result, TypeStats.percentage = None\<rparr>
      | Inl error \<Rightarrow> None)"

text \<open>
  The expression \<^verbatim>\<open>total > 0 ? Math.round((r.count / total) * 100 * 10) / 10 : 0\<close>:
  a division, two multiplications and a division of binary64, in this order.
\<close>

definition percentage_of :: "int \<Rightarrow> int \<Rightarrow> rat" where
  "percentage_of c tot =
     (if tot > 0 then
        fl (of_int (Math_round (fl (fl (fl (of_int c / of_int tot) * 100) * 10))) / 10)
      else 0)"

definition with_percentages :: "TypeStats list \<Rightarrow> TypeStats list" where
  "with_percentages validResults =
     (let tot = foldl (\<lambda>sum r. sum + TypeStats.count r) 0 validResults
      in map (\<lambda>r. r\<lparr>TypeStats.percentage := Some (percentage_of (TypeStats.count r) tot)\<rparr>) validResults)"

definition getTypeStats :: "process \<Rightarrow> 'b network \<Rightarrow> js_error + TypeStats list" where
  "getTypeStats p fetch_list =
     handle
       (let contentTypes = getAllContentTypes;
            results = map (type_query p fetch_list) contentTypes;
            validResults = non_null results
        in if length validResults = 0 then
             Inl (TourApiError ''Failed to get type stats: All content type queries failed'' None None)
           else Inr (with_percentages validResults))
       (rethrow_or_wrap ''Failed to get type stats: '')"

subsection \<open>getStatsSummary\<close>

text \<open>
  \<^verbatim>\<open>Array.prototype.sort\<close> is stable; with the comparator \<^verbatim>\<open>(a, b) => b.count - a.count\<close>
  its result is the stable arrangement by descending count, which insertion from the right
  computes.
\<close>

fun insert_by :: "('a \<Rightarrow> 'a \<Rightarrow> int) \<Rightarrow> 'a \<Rightarrow> 'a list \<Rightarrow> 'a list" where
  "insert_by cmp x [] = [x]"
| "insert_by cmp x (y # ys) = (if cmp x y \<le> 0 then x # y # ys else y # insert_by cmp x ys)"

definition js_sort :: "('a \<Rightarrow> 'a \<Rightarrow> int) \<Rightarrow> 'a list \<Rightarrow> 'a list" where
  "js_sort cmp xs = foldr (insert_by cmp) xs []"

text \<open>
  \<^verbatim>\<open>Promise.all\<close> of two promises fulfils with both values, and rejects with the error of
  the promise that rejects first. Which of two failing aggregations rejects first depends on
  the timing of their requests, which the embedding does not hold; it is the argument
  \<open>earlier\<close>.
\<close>

datatype earlier_rejection = FirstRejects | SecondRejects

definition Promise_all2 ::
  "earlier_rejection \<Rightarrow> js_error + 'a \<Rightarrow> js_error + 'b \<Rightarrow> js_error + 'a \<times> 'b" where
  "Promise_all2 earlier a b =
     (case a of
        Inr x \<Rightarrow> (case b of Inr y \<Rightarrow> Inr (x, y) | Inl e2 \<Rightarrow> Inl e2)
      | Inl e1 \<Rightarrow>
          (case b of
             Inr y \<Rightarrow> Inl e1
           | Inl e2 \<Rightarrow> (case earlier of FirstRejects \<Rightarrow> Inl e1 | SecondRejects \<Rightarrow> Inl e2)))"

text \<open>\<open>now\<close> is \<^verbatim>\<open>new Date().toISOString()\<close>.\<close>

definition getStatsSummary ::
  "process \<Rightarrow> ('z AreaCode_scheme) network \<Rightarrow> 'b network \<Rightarrow> string \<Rightarrow> earlier_rejection
     \<Rightarrow> js_error + StatsSummary" where
  "getStatsSummary p fetch_area fetch_list now earlier =
     handle
       (and_then (Promise_all2 earlier (getRegionStats p fetch_area fetch_list) (getTypeStats p fetch_list))
          (\<lambda>(regionStats, typeStats).
            let totalCount = foldl (\<lambda>sum t. sum + TypeStats.count t) 0 typeStats;
                topRegions = take 3 (js_sort (\<lambda>a b. RegionStats.count b - RegionStats.count a) regionStats);
                topTypes = take 3 (js_sort (\<lambda>a b. TypeStats.count b - TypeStats.count a) typeStats);
                lastUpdated = now
            in Inr \<lparr>totalCount = totalCount, topRegions = topRegions, topTypes = topTypes,
                    lastUpdated = lastUpdated\<rparr>))
       (rethrow_or_wrap ''Failed to get stats summary: '')"

text \<open>
  What the summary promises of a ranking: \<open>ys\<close> arranges \<open>xs\<close> by descending key and
  keeps the order of \<open>xs\<close> among entries with the same key.
\<close>

definition stable_descending :: "('a \<Rightarrow> int) \<Rightarrow> 'a list \<Rightarrow> 'a list \<Rightarrow> bool" where
  "stable_descending key xs ys \<longleftrightarrow>
     sorted_wrt (\<lambda>a b. key b \<le> key a) ys
   \<and> length ys = length xs
   \<and> (\<forall>c. filter (\<lambda>x. key x = c) ys = filter (\<lambda>x. key x = c) xs)"

text \<open>
  The percentage as the specification words it, \<open>round(count / \<Sigma>count * 1000) / 10\<close>:
  once in exact arithmetic and once with the operations of binary64.
\<close>

definition claimed_percentage :: "int \<Rightarrow> int \<Rightarrow> rat" where
  "claimed_percentage c tot = of_int (round (of_int c / of_int tot * 1000 :: rat)) / 10"

definition claimed_percentage_binary64 :: "int \<Rightarrow> int \<Rightarrow> rat" where
  "claimed_percentage_binary64 c tot =
     fl (of_int (Math_round (fl (fl (of_int c / of_int tot) * 1000))) / 10)"

section \<open>The recommendation block of the detail page\<close>

text \<open>
  The interfaces \<^verbatim>\<open>TourItem\<close> and \<^verbatim>\<open>TourDetail\<close> of \<^verbatim>\<open>lib/types/tour.ts\<close> with the
  fields the block reads: of an item its \<^verbatim>\<open>contentid\<close>, of the detail its \<^verbatim>\<open>contentid\<close>,
  its \<^verbatim>\<open>contenttypeid\<close> and its optional \<^verbatim>\<open>areacode\<close>. The other fields are in the
  extension of the records.
\<close>

record TourItem =
  contentid :: string

record TourDetail =
  contentid :: string
  contenttypeid :: string
  areacode :: "string option"

text \<open>\<^verbatim>\<open>if (detailData.areacode)\<close>: \<^verbatim>\<open>undefined\<close> and the empty string are falsy.\<close>

definition truthy :: "string option \<Rightarrow> bool" where
  "truthy s = (case s of None \<Rightarrow> False | Some v \<Rightarrow> v \<noteq> [])"

text \<open>
  Priority 1, same area and same type. A failed query leaves \<open>recommendations\<close> as it
  was, the empty list.
\<close>

definition same_area_and_type ::
  "process \<Rightarrow> ('z TourItem_scheme) network \<Rightarrow> 'y TourDetail_scheme \<Rightarrow> 'z TourItem_scheme list" where
  "same_area_and_type p fetch detailData =
     (if truthy (areacode detailData) then
        (case fst (getAreaBasedList p fetch
                     (list_query (areacode detailData) (Some (contenttypeid detailData)) 10 1)) of
           Inr sameAreaAndType \<Rightarrow>
             take 6 (filter (\<lambda>item. TourItem.contentid item \<noteq> TourDetail.contentid detailData)
                       (items sameAreaAndType))
         | Inl err \<Rightarrow> [])
      else [])"

text \<open>Priority 2, same type only, to fill up what priority 1 has left.\<close>

definition same_type_fill ::
  "process \<Rightarrow> ('z TourItem_scheme) network \<Rightarrow> 'y TourDetail_scheme
     \<Rightarrow> 'z TourItem_scheme list \<Rightarrow> 'z TourItem_scheme list" where
  "same_type_fill p fetch detailData recommendations =
     (if length recommendations < 6 then
        (case fst (getAreaBasedList p fetch
                     (list_query None (Some (contenttypeid detailData)) 10 1)) of
           Inr sameType \<Rightarrow>
             recommendations @
             take (6 - length recommendations)
               (filter (\<lambda>item. TourItem.contentid item \<noteq> TourDetail.contentid detailData
                              \<and> \<not> list_ex (\<lambda>rec. TourItem.contentid rec = TourItem.contentid item)
                                     recommendations)
                  (items sameType))
         | Inl err \<Rightarrow> recommendations)
      else recommendations)"

text \<open>
  The whole block, inside its outer \<^verbatim>\<open>try\<close>: what \<open>recommendations\<close> holds when the
  block is left, or the value thrown out of it.
\<close>

definition PlaceDetailContent_recommendations ::
  "process \<Rightarrow> ('z TourItem_scheme) network \<Rightarrow> 'y TourDetail_scheme
     \<Rightarrow> js_error + 'z TourItem_scheme list" where
  "PlaceDetailContent_recommendations p fetch detailData =
     handle
       (Inr (same_type_fill p fetch detailData (same_area_and_type p fetch detailData)))
       (\<lambda>err. Inr [])"

text \<open>
  The block as the earlier revision of the page has it: one query for the category alone.
\<close>

definition PlaceDetailContent_recommendations_earlier ::
  "process \<Rightarrow> ('z TourItem_scheme) network \<Rightarrow> 'y TourDetail_scheme \<Rightarrow> 'z TourItem_scheme list" where
  "PlaceDetailContent_recommendations_earlier p fetch detailData =
     (case fst (getAreaBasedList p fetch (list_query None (Some (contenttypeid detailData)) 10 1)) of
        Inr list \<Rightarrow>
          take 6 (filter (\<lambda>item. TourItem.contentid item \<noteq> TourDetail.contentid detailData)
                    (items list))
      | Inl err \<Rightarrow> [])"

section \<open>Concrete worlds\<close>

text \<open>
  Small worlds on which the definitions are run: a server process with both keys set, a
  process without any key, and networks that answer every request alike.
\<close>

definition demo_process :: process where
  "demo_process =
     \<lparr>env = [''TOUR_API_KEY'' \<mapsto> ''server-key'', ''NEXT_PUBLIC_TOUR_API_KEY'' \<mapsto> ''public-key''],
      server_side = True\<rparr>"

text \<open>The same environment read in the browser, where \<^verbatim>\<open>window\<close> is defined.\<close>

definition browser_process :: process where
  "browser_process =
     \<lparr>env = [''TOUR_API_KEY'' \<mapsto> ''server-key'', ''NEXT_PUBLIC_TOUR_API_KEY'' \<mapsto> ''public-key''],
      server_side = False\<rparr>"

definition public_only_process :: process where
  "public_only_process =
     \<lparr>env = [''NEXT_PUBLIC_TOUR_API_KEY'' \<mapsto> ''public-key''], server_side = True\<rparr>"

definition keyless_process :: process where
  "keyless_process = \<lparr>env = Map.empty, server_side = True\<rparr>"

definition body_of :: "'a item_value option \<Rightarrow> int option \<Rightarrow> 'a api_body" where
  "body_of it n =
     \<lparr>item = it, api_body.totalCount = n, api_body.pageNo = None, api_body.numOfRows = None\<rparr>"

definition respond :: "nat \<Rightarrow> 'a item_value option \<Rightarrow> 'a Response" where
  "respond st it = \<lparr>status = st, statusText = ''-'', json = Inr (body_of it None)\<rparr>"

definition answer :: "nat \<Rightarrow> 'a item_value option \<Rightarrow> 'a network" where
  "answer st it = (\<lambda>u k. Responds (respond st it))"

text \<open>A network that fails once with 503 and then answers.\<close>

definition answer_late :: "nat \<Rightarrow> 'a item_value option \<Rightarrow> 'a network" where
  "answer_late st it = (\<lambda>u k. if k = 0 then Responds (respond 503 None) else Responds (respond st it))"

definition detail_common_params :: "string \<Rightarrow> GetDetailCommonParams" where
  "detail_common_params cid =
     \<lparr>GetDetailCommonParams.contentId = cid, GetDetailCommonParams.contentTypeId = None,
      defaultYN = None, firstImageYN = None, areacodeYN = None, catcodeYN = None,
      addrinfoYN = None, mapinfoYN = None, overviewYN = None\<rparr>"

definition detail_intro_params :: "string \<Rightarrow> string \<Rightarrow> GetDetailIntroParams" where
  "detail_intro_params cid tid =
     \<lparr>GetDetailIntroParams.contentId = cid, GetDetailIntroParams.contentTypeId = tid\<rparr>"

definition detail_image_params :: "string \<Rightarrow> GetDetailImageParams" where
  "detail_image_params cid =
     \<lparr>GetDetailImageParams.contentId = cid, imageYN = Some ''Y'', subImageYN = Some ''Y''\<rparr>"

definition detail_pet_params :: "string \<Rightarrow> GetDetailPetTourParams" where
  "detail_pet_params cid = \<lparr>GetDetailPetTourParams.contentId = cid\<rparr>"

definition search_params :: "string \<Rightarrow> SearchKeywordParams" where
  "search_params kw =
     \<lparr>keyword = kw, SearchKeywordParams.areaCode = None, SearchKeywordParams.contentTypeId = None,
      SearchKeywordParams.numOfRows = None, SearchKeywordParams.pageNo = None\<rparr>"

definition demo_url :: "string \<Rightarrow> (string \<times> string) list \<Rightarrow> url" where
  "demo_url endpoint params =
     (''https://apis.data.go.kr/B551011/KorService2'' @ endpoint,
      [(''serviceKey'', ''server-key''), (''MobileOS'', ''ETC''), (''MobileApp'', ''MyTrip''),
       (''_type'', ''json'')] @ params)"

text \<open>
  A list endpoint that knows a total for some area codes and some content types: it answers a
  query for a known area or type with the total and one row (no row when the total is 0), and
  any other query with 503 at every attempt.
\<close>

definition known_total :: "(string \<times> int) list \<Rightarrow> (string \<times> int) list \<Rightarrow> url \<Rightarrow> int option" where
  "known_total by_area by_type u =
     (case map_of (snd u) ''areaCode'' of
        Some a \<Rightarrow> map_of by_area a
      | None \<Rightarrow> (case map_of (snd u) ''contentTypeId'' of Some t \<Rightarrow> map_of by_type t | None \<Rightarrow> None))"

definition list_network :: "(string \<times> int) list \<Rightarrow> (string \<times> int) list \<Rightarrow> 'a \<Rightarrow> 'a network" where
  "list_network by_area by_type row =
     (\<lambda>u k. case known_total by_area by_type u of
               None \<Rightarrow> Responds (respond 503 None)
             | Some n \<Rightarrow>
                 Responds \<lparr>status = 200, statusText = ''OK'',
                           json = Inr (body_of (Some (Many (if n = 0 then [] else [row]))) (Some n))\<rparr>)"

definition demo_areas :: "AreaCode list" where
  "demo_areas =
     [\<lparr>AreaCode.code = ''1'', AreaCode.name = ''Seoul''\<rparr>,
      \<lparr>AreaCode.code = ''2'', AreaCode.name = ''Incheon''\<rparr>,
      \<lparr>AreaCode.code = ''3'', AreaCode.name = ''Daejeon''\<rparr>,
      \<lparr>AreaCode.code = ''4'', AreaCode.name = ''Daegu''\<rparr>,
      \<lparr>AreaCode.code = ''5'', AreaCode.name = ''Gwangju''\<rparr>]"

definition area_network :: "AreaCode network" where
  "area_network = answer 200 (Some (Many demo_areas))"

definition region_stat :: "string \<Rightarrow> string \<Rightarrow> int \<Rightarrow> RegionStats" where
  "region_stat c n k = \<lparr>RegionStats.code = c, RegionStats.name = n, RegionStats.count = k\<rparr>"

definition type_stat :: "string \<Rightarrow> int \<Rightarrow> rat option \<Rightarrow> TypeStats" where
  "type_stat t k pc =
     \<lparr>TypeStats.contentTypeId = t, TypeStats.typeName = the (map_of CONTENT_TYPES t),
      TypeStats.count = k, TypeStats.percentage = pc\<rparr>"

definition demo_list_network :: "unit network" where
  "demo_list_network =
     list_network [(''1'', 7), (''3'', 9), (''4'', 7), (''5'', 2)] [(''12'', 23), (''14'', 57)] ()"

definition dead_list_network :: "unit network" where
  "dead_list_network = list_network [] [] ()"

definition one_row :: "int \<Rightarrow> unit ListResponse" where
  "one_row n = \<lparr>items = [()], ListResponse.totalCount = n, ListResponse.pageNo = Some 1,
               ListResponse.numOfRows = Some 1\<rparr>"

definition exhausted_503 :: js_error where
  "exhausted_503 = TourApiError ''API request failed with status 503 after 3 retries'' (Some 503) None"

definition demo_summary :: StatsSummary where
  "demo_summary =
     \<lparr>StatsSummary.totalCount = 80,
      topRegions = [region_stat ''3'' ''Daejeon'' 9, region_stat ''1'' ''Seoul'' 7, region_stat ''4'' ''Daegu'' 7],
      topTypes = [type_stat ''14'' 57 (Some (fl (713 / 10))), type_stat ''12'' 23 (Some (fl (287 / 10)))],
      lastUpdated = ''2026-01-01T00:00:00.000Z''\<rparr>"

text \<open>
  The detail page of item 125266 (area 1, type 12), and a list endpoint that answers a query
  with an area code by one page and a query without by another.
\<close>

definition tour_item :: "string \<Rightarrow> TourItem" where
  "tour_item cid = \<lparr>TourItem.contentid = cid\<rparr>"

definition demo_detail :: TourDetail where
  "demo_detail =
     \<lparr>TourDetail.contentid = ''125266'', contenttypeid = ''12'', areacode = Some ''1''\<rparr>"

definition page_network :: "TourItem list \<Rightarrow> TourItem list \<Rightarrow> TourItem network" where
  "page_network same_area same_type =
     (\<lambda>u k. Responds (respond 200 (Some (Many
        (case map_of (snd u) ''areaCode'' of Some a \<Rightarrow> same_area | None \<Rightarrow> same_type)))))"

definition area_page :: "TourItem list" where
  "area_page = map tour_item [''a'', ''125266'', ''b'', ''c'', ''d'']"

definition type_page :: "TourItem list" where
  "type_page = map tour_item [''a'', ''e'', ''125266'', ''b'', ''f'', ''g'', ''h'', ''i'', ''j'', ''k'']"

definition repeating_page :: "TourItem list" where
  "repeating_page = map tour_item [''a'', ''b'', ''a'']"

definition page_of :: "TourItem list \<Rightarrow> nat \<Rightarrow> TourItem ListResponse" where
  "page_of xs rows =
     \<lparr>items = xs, ListResponse.totalCount = int (length xs), ListResponse.pageNo = Some 1,
      ListResponse.numOfRows = Some rows\<rparr>"

definition example_list_network :: "unit network" where
  "example_list_network = list_network [] [(''12'', 10), (''14'', 0), (''15'', 30)] ()"

definition empty_list_network :: "unit network" where
  "empty_list_network = list_network [] [(''12'', 0), (''14'', 0), (''15'', 0)] ()"

definition no_row :: "unit ListResponse" where
  "no_row = \<lparr>items = [], ListResponse.totalCount = 0, ListResponse.pageNo = Some 1,
             ListResponse.numOfRows = Some 1\<rparr>"

section \<open>Properties of fetchWithRetry\<close>

lemma requests_simps:
  "requests [] = 0"
  "requests (Request u # tr) = Suc (requests tr)"
  "requests (Sleep ms # tr) = requests tr"
  by (simp_all add: requests_def)

lemma sleeps_simps:
  "sleeps [] = []"
  "sleeps (Request u # tr) = sleeps tr"
  "sleeps (Sleep ms # tr) = ms # sleeps tr"
  by (simp_all add: sleeps_def)

lemma requests_append: "requests (xs @ ys) = requests xs + requests ys"
  by (simp add: requests_def)

lemma sleeps_append: "sleeps (xs @ ys) = sleeps xs @ sleeps ys"
  by (simp add: sleeps_def)

lemma backoff_trace_step:
  "a < n \<Longrightarrow> backoff_trace u a n = Request u # Sleep (2 ^ a * 1000) # backoff_trace u (Suc a) n"
  by (simp add: backoff_trace_def upt_conv_Cons)

lemma backoff_trace_last: "backoff_trace u n n = [Request u]"
  by (simp add: backoff_trace_def)

lemma requests_backoff_trace: "a \<le> n \<Longrightarrow> requests (backoff_trace u a n) = n - a + 1"
proof (induction "n - a" arbitrary: a)
  case 0
  then show ?case by (simp add: backoff_trace_last requests_simps)
next
  case (Suc d)
  then have "a < n" by simp
  with Suc show ?case by (simp add: backoff_trace_step requests_simps)
qed

lemma sleeps_backoff_trace:
  "a \<le> n \<Longrightarrow> sleeps (backoff_trace u a n) = map (\<lambda>k. 2 ^ k * 1000) [a..<n]"
proof (induction "n - a" arbitrary: a)
  case 0
  then show ?case by (simp add: backoff_trace_last sleeps_simps)
next
  case (Suc d)
  then have "a < n" by simp
  with Suc show ?case by (simp add: backoff_trace_step sleeps_simps upt_conv_Cons)
qed

lemma loop_client_error:
  assumes "int attempt \<le> maxRetries"
    and "fetch u attempt = Responds response"
    and "400 \<le> status response" and "status response < 500"
  shows "fetchWithRetry_loop fetch u maxRetries attempt lastError =
           (Inl (TourApiError (''API request failed with status '' @ show_nat (status response))
                   (Some (status response)) None),
            [Request u])"
  using assms by (subst fetchWithRetry_loop.simps) simp

lemma loop_server_errors:
  assumes "int a \<le> maxRetries"
    and "\<forall>k. a \<le> k \<and> int k \<le> maxRetries \<longrightarrow>
           (\<exists>r. fetch u k = Responds r \<and> 500 \<le> status r)"
    and "fetch u (nat maxRetries) = Responds final"
  shows "fetchWithRetry_loop fetch u maxRetries a lastError =
           (Inl (TourApiError (''API request failed with status '' @ show_nat (status final)
                                @ '' after '' @ show_int maxRetries @ '' retries'')
                   (Some (status final)) None),
            backoff_trace u a (nat maxRetries))"
  using assms
proof (induction "nat maxRetries - a" arbitrary: a)
  case 0
  then have a: "a = nat maxRetries" and le: "int a \<le> maxRetries" by auto
  from 0 obtain r where r: "fetch u a = Responds r" "500 \<le> status r" by blast
  with 0 a have "r = final" by simp
  with r le a show ?case
    by (subst fetchWithRetry_loop.simps) (simp add: backoff_trace_last)
next
  case (Suc d)
  then have lt: "int a < maxRetries" and an: "a < nat maxRetries" by auto
  from Suc obtain r where r: "fetch u a = Responds r" "500 \<le> status r" by blast
  have ih: "fetchWithRetry_loop fetch u maxRetries (Suc a) lastError =
           (Inl (TourApiError (''API request failed with status '' @ show_nat (status final)
                                @ '' after '' @ show_int maxRetries @ '' retries'')
                   (Some (status final)) None),
            backoff_trace u (Suc a) (nat maxRetries))"
  proof (rule Suc.hyps(1))
    show "d = nat maxRetries - Suc a" using Suc.hyps(2) by simp
    show "int (Suc a) \<le> maxRetries" using lt by simp
    show "\<forall>k. Suc a \<le> k \<and> int k \<le> maxRetries \<longrightarrow>
           (\<exists>r. fetch u k = Responds r \<and> 500 \<le> status r)"
      using Suc.prems(2) by auto
    show "fetch u (nat maxRetries) = Responds final" by (rule Suc.prems(3))
  qed
  show ?case
    using r lt ih
    by (subst fetchWithRetry_loop.simps) (simp add: backoff_trace_step [OF an])
qed


lemma requested_append: "requested (xs @ ys) = requested xs @ requested ys"
  by (induction xs rule: requested.induct) simp_all

lemma requested_after: "requested (snd (after evs r)) = requested evs @ requested (snd r)"
  by (cases r) (simp add: requested_append)

text \<open>Every request of \<open>fetchWithRetry\<close> goes to the URL it is given.\<close>

lemma loop_requested:
  "set (requested (snd (fetchWithRetry_loop fetch u maxRetries attempt lastError))) \<subseteq> {u}"
proof (induction "nat (maxRetries + 1 - int attempt)" arbitrary: attempt lastError)
  case 0
  then have "\<not> int attempt \<le> maxRetries" by simp
  then show ?case by (subst fetchWithRetry_loop.simps) simp
next
  case (Suc d)
  have ih: "set (requested (snd (fetchWithRetry_loop fetch u maxRetries (attempt + 1) e))) \<subseteq> {u}" for e
    using Suc.hyps(1) [of "attempt + 1" e] Suc.hyps(2) by simp
  show ?case
    by (subst fetchWithRetry_loop.simps)
       (use ih in \<open>auto simp add: requested_after split: fetch_outcome.splits\<close>)
qed

lemma loop_requests_first:
  assumes "int attempt \<le> maxRetries"
  shows "requested (snd (fetchWithRetry_loop fetch u maxRetries attempt lastError)) \<noteq> []"
  using assms
  by (subst fetchWithRetry_loop.simps) (simp add: requested_after split: fetch_outcome.splits)

section \<open>Claims about the resilient fetcher\<close>



text \<open>
  C3. When every attempt is answered with a status of 500 or more, \<open>fetchWithRetry\<close>
  makes \<open>maxRetries + 1\<close> requests, sleeps \<open>2^k * 1000\<close> ms after the request with index
  \<open>k < maxRetries\<close> (1000, 2000, 4000 ms for the default 3) and then fails with a
  \<open>TourApiError\<close> that carries the last status and whose message names the status and
  the number of retries.
\<close>

theorem fetchWithRetry_5xx_backoff:
  assumes "0 \<le> maxRetries"
    and "\<forall>k. int k \<le> maxRetries \<longrightarrow> (\<exists>r. fetch u k = Responds r \<and> 500 \<le> status r)"
  shows "\<exists>final tr.
           fetch u (nat maxRetries) = Responds final
         \<and> fetchWithRetry fetch u maxRetries =
             (Inl (TourApiError (''API request failed with status '' @ show_nat (status final)
                                  @ '' after '' @ show_int maxRetries @ '' retries'')
                     (Some (status final)) None),
              tr)
         \<and> tr = backoff_trace u 0 (nat maxRetries)
         \<and> requests tr = nat maxRetries + 1
         \<and> sleeps tr = map (\<lambda>k. 2 ^ k * 1000) [0..<nat maxRetries]"
proof -
  from assms obtain final where final: "fetch u (nat maxRetries) = Responds final"
    by (metis int_nat_eq order_refl)
  have "fetchWithRetry fetch u maxRetries =
             (Inl (TourApiError (''API request failed with status '' @ show_nat (status final)
                                  @ '' after '' @ show_int maxRetries @ '' retries'')
                     (Some (status final)) None),
              backoff_trace u 0 (nat maxRetries))"
    unfolding fetchWithRetry_def
    using assms final by (intro loop_server_errors) auto
  with final show ?thesis
    by (simp add: requests_backoff_trace sleeps_backoff_trace)
qed

theorem fetchWithRetry_5xx_backoff_witness:
  "\<exists>tr. fetchWithRetry (\<lambda>u k. Responds \<lparr>status = 503, statusText = ''Service Unavailable'',
                                          json = (Inl [] :: string + unit api_body)\<rparr>)
            (''/areaCode2'', []) 3
          = (Inl (TourApiError ''API request failed with status 503 after 3 retries'' (Some 503) None), tr)
        \<and> requests tr = 4 \<and> sleeps tr = [1000, 2000, 4000]"
  using fetchWithRetry_5xx_backoff
    [of 3 "\<lambda>u k. Responds \<lparr>status = 503, statusText = ''Service Unavailable'',
                              json = (Inl [] :: string + unit api_body)\<rparr>"
        "(''/areaCode2'', [])"]
  by (simp add: show_nat.simps show_int_def digit_char_def upt_conv_Cons)

section \<open>Claims about the endpoint clients\<close>

lemmas client_defs = and_then_def handle_def response_json_def parseApiResponse_def rethrow_or_wrap_def

lemma ok_respond: "ok (respond st it) = (200 \<le> st \<and> st \<le> 299)"
  by (simp add: ok_def respond_def)

lemma json_respond: "json (respond st it) = Inr (body_of it None)"
  by (simp add: respond_def)

lemma item_body_of: "item (body_of it n) = it"
  by (simp add: body_of_def)

text \<open>
  When the response that \<open>getDetailCommon\<close> obtains is OK and its body parses to an
  envelope whose \<open>item\<close> is the empty array, so that normalisation yields no item, the
  call throws a \<open>TourApiError\<close> with status code 404 and returns no value.
\<close>

lemma getDetailCommon_empty_array_not_found:
  assumes "getDetailCommon_request p fetch params = (Inr response, tr)"
    and "ok response" and "json response = Inr data"
    and "parseApiResponse data = Inr parsed" and "normalizeToArray parsed = []"
  shows "getDetailCommon p fetch params =
           (Inl (TourApiError (''Tour detail not found for contentId: ''
                                @ GetDetailCommonParams.contentId params)
                   (Some 404) None),
            tr)"
  using assms by (simp add: getDetailCommon_def and_then_def handle_def response_json_def rethrow_or_wrap_def)

lemma getDetailCommon_empty_array_example:
  "getDetailCommon demo_process (answer_late 200 (Some (Many ([] :: unit list))))
       (detail_common_params ''125266'')
     = (Inl (TourApiError ''Tour detail not found for contentId: 125266'' (Some 404) None),
        [Request (demo_url ''/detailCommon2'' [(''contentId'', ''125266'')]), Sleep 1000,
         Request (demo_url ''/detailCommon2'' [(''contentId'', ''125266'')])])"
proof -
  have req: "getDetailCommon_request demo_process (answer_late 200 (Some (Many ([] :: unit list))))
               (detail_common_params ''125266'')
             = (Inr (respond 200 (Some (Many []))),
                [Request (demo_url ''/detailCommon2'' [(''contentId'', ''125266'')]), Sleep 1000,
                 Request (demo_url ''/detailCommon2'' [(''contentId'', ''125266'')])])"
    by code_simp
  have parsed: "parseApiResponse (body_of (Some (Many ([] :: unit list))) None) = Inr (Many [])"
    by (simp add: parseApiResponse_def item_body_of)
  show ?thesis
    using getDetailCommon_empty_array_not_found [OF req _ json_respond parsed]
    by (simp add: ok_respond detail_common_params_def)
qed

text \<open>
  The 404 of \<open>getDetailCommon\<close> is reached by the empty array only: normalisation yields no
  item exactly when \<open>item\<close> is \<^verbatim>\<open>[]\<close>.
\<close>

lemma normalizes_to_zero_items:
  "(\<exists>parsed. parseApiResponse data = Inr parsed \<and> normalizeToArray parsed = [])
     \<longleftrightarrow> item data = Some (Many [])"
proof
  assume "\<exists>parsed. parseApiResponse data = Inr parsed \<and> normalizeToArray parsed = []"
  then obtain parsed where p: "parseApiResponse data = Inr parsed" "normalizeToArray parsed = []"
    by blast
  from p(2) have "parsed = Many []" by (cases parsed) simp_all
  with p(1) show "item data = Some (Many [])"
    by (simp add: parseApiResponse_def split: option.splits)
next
  assume "item data = Some (Many [])"
  then show "\<exists>parsed. parseApiResponse data = Inr parsed \<and> normalizeToArray parsed = []"
    by (simp add: parseApiResponse_def)
qed

text \<open>
  C5. The claim fails on the code for the envelope that has no \<open>item\<close>, which is what the
  provider sends when it has no result. \<open>parseApiResponse\<close> throws its error without status
  code before the test \<^verbatim>\<open>normalizedItems.length === 0\<close> is reached, and the \<^verbatim>\<open>catch\<close> block
  of \<open>getDetailCommon\<close> throws it on: the caller gets a \<open>TourApiError\<close> whose status code
  is not 404, where \<open>getDetailImage\<close> and \<open>getDetailPetTour\<close> recognise the same error
  by its message.
\<close>

theorem getDetailCommon_absent_item_no_status:
  assumes "getDetailCommon_request p fetch params = (Inr response, tr)"
    and "ok response" and "json response = Inr data" and "item data = None"
  shows "getDetailCommon p fetch params =
           (Inl (TourApiError ''Invalid API response: items.item is missing'' None None), tr)
       \<and> statusCode (TourApiError ''Invalid API response: items.item is missing'' None None) \<noteq> Some 404"
  using assms by (simp add: getDetailCommon_def client_defs)

theorem getDetailCommon_absent_item_no_status_witness:
  "getDetailCommon demo_process (answer 200 (None :: unit item_value option))
       (detail_common_params ''999999'')
     = (Inl (TourApiError ''Invalid API response: items.item is missing'' None None),
        [Request (demo_url ''/detailCommon2'' [(''contentId'', ''999999'')])])"
proof -
  have req: "getDetailCommon_request demo_process (answer 200 (None :: unit item_value option))
               (detail_common_params ''999999'')
             = (Inr (respond 200 None),
                [Request (demo_url ''/detailCommon2'' [(''contentId'', ''999999'')])])"
    by code_simp
  have okr: "ok (respond 200 (None :: unit item_value option))" by (simp add: ok_respond)
  show ?thesis
    using getDetailCommon_absent_item_no_status [OF req okr json_respond item_body_of] by simp
qed

text \<open>
  C10. When the envelope's \<open>item\<close> is an array of more than one element, each of
  \<open>getDetailCommon\<close>, \<open>getDetailIntro\<close> and \<open>getDetailPetTour\<close> returns the first
  element of the array; the later elements do not reach the caller.
\<close>

theorem single_entity_first_of_many:
  assumes "ok response" and "json response = Inr data"
    and "item data = Some (Many (first # second # others))"
  shows "(getDetailCommon_request p fetch common_params = (Inr response, tr)
            \<longrightarrow> getDetailCommon p fetch common_params = (Inr first, tr))
       \<and> (getDetailIntro_request p fetch intro_params = (Inr response, tr)
            \<longrightarrow> getDetailIntro p fetch intro_params = (Inr first, tr))
       \<and> (getDetailPetTour_request p fetch pet_params = (Inr response, tr)
            \<longrightarrow> getDetailPetTour p fetch pet_params = (Inr (Some first), tr))"
  using assms
  by (simp add: getDetailCommon_def getDetailIntro_def getDetailPetTour_def client_defs)

theorem single_entity_first_of_many_witness:
  "getDetailCommon demo_process (answer 200 (Some (Many [''a'', ''b'', ''c''])))
       (detail_common_params ''125266'')
     = (Inr ''a'', [Request (demo_url ''/detailCommon2'' [(''contentId'', ''125266'')])])
   \<and> getDetailIntro demo_process (answer 200 (Some (Many [''a'', ''b'', ''c''])))
       (detail_intro_params ''125266'' ''12'')
     = (Inr ''a'', [Request (demo_url ''/detailIntro2'' [(''contentId'', ''125266''), (''contentTypeId'', ''12'')])])
   \<and> getDetailPetTour demo_process (answer 200 (Some (Many [''a'', ''b'', ''c''])))
       (detail_pet_params ''125266'')
     = (Inr (Some ''a''), [Request (demo_url ''/detailPetTour2'' [(''contentId'', ''125266'')])])"
proof -
  let ?fetch = "answer 200 (Some (Many [''a'', ''b'', ''c'']))"
  let ?response = "respond 200 (Some (Many [''a'', ''b'', ''c'']))"
  have c: "getDetailCommon_request demo_process ?fetch (detail_common_params ''125266'')
             = (Inr ?response, [Request (demo_url ''/detailCommon2'' [(''contentId'', ''125266'')])])"
    by code_simp
  have i: "getDetailIntro_request demo_process ?fetch (detail_intro_params ''125266'' ''12'')
             = (Inr ?response,
                [Request (demo_url ''/detailIntro2'' [(''contentId'', ''125266''), (''contentTypeId'', ''12'')])])"
    by code_simp
  have t: "getDetailPetTour_request demo_process ?fetch (detail_pet_params ''125266'')
             = (Inr ?response, [Request (demo_url ''/detailPetTour2'' [(''contentId'', ''125266'')])])"
    by code_simp
  have okr: "ok ?response" by (simp add: ok_respond)
  have it: "item (body_of (Some (Many [''a'', ''b'', ''c''])) None) = Some (Many (''a'' # ''b'' # [''c'']))"
    by (simp add: item_body_of)
  show ?thesis
    using single_entity_first_of_many [OF okr json_respond it] c i t by blast
qed

text \<open>
  With an OK response whose envelope has no \<open>item\<close>, \<open>getDetailImage\<close> returns the
  empty array and \<open>getDetailPetTour\<close> returns null.
\<close>

lemma optional_endpoints_absent_item:
  assumes "ok response" and "json response = Inr data" and "item data = None"
  shows "(getDetailImage_request p fetch image_params = (Inr response, tr)
            \<longrightarrow> getDetailImage p fetch image_params = (Inr [], tr))
       \<and> (getDetailPetTour_request p fetch pet_params = (Inr response, tr)
            \<longrightarrow> getDetailPetTour p fetch pet_params = (Inr None, tr))"
  using assms by (simp add: getDetailImage_def getDetailPetTour_def client_defs)

lemma request_first_404:
  assumes "getApiKey p = Inr k" and "\<forall>u. \<exists>r. fetch u 0 = Responds r \<and> status r = 404"
  shows "\<exists>u. request p fetch endpoint params =
           (Inl (TourApiError ''API request failed with status 404'' (Some 404) None), [Request u])"
proof -
  obtain u where u: "buildUrl p endpoint params = Inr u"
    using assms(1) by (simp add: buildUrl_def getCommonParams_def and_then_def Let_def)
  from assms(2) obtain r where r: "fetch u 0 = Responds r" "status r = 404" by blast
  have "fetchWithRetry fetch u 3 =
          (Inl (TourApiError (''API request failed with status '' @ show_nat (status r)) (Some (status r)) None),
           [Request u])"
    unfolding fetchWithRetry_def using r by (intro loop_client_error) auto
  with r u show ?thesis
    by (simp add: request_def show_nat.simps digit_char_def)
qed

text \<open>
  C4. The claim holds for an absent \<open>item\<close> (above) and fails for an upstream 404 on
  \<open>getDetailImage\<close>. A 404 never reaches the \<^verbatim>\<open>response.status === 404\<close> test of the
  clients, because \<open>fetchWithRetry\<close> throws on every 4xx status. The \<^verbatim>\<open>catch\<close> block of
  \<open>getDetailPetTour\<close> turns the thrown error with status code 404 into null; the
  \<^verbatim>\<open>catch\<close> block of \<open>getDetailImage\<close> has no such case and throws the error on.
\<close>

theorem getDetailImage_404_throws:
  assumes "getApiKey p = Inr k" and "\<forall>u. \<exists>r. fetch u 0 = Responds r \<and> status r = 404"
  shows "fst (getDetailImage p fetch image_params) =
           Inl (TourApiError ''API request failed with status 404'' (Some 404) None)
       \<and> fst (getDetailPetTour p fetch pet_params) = Inr None"
proof -
  obtain u where "getDetailImage_request p fetch image_params =
           (Inl (TourApiError ''API request failed with status 404'' (Some 404) None), [Request u])"
    unfolding getDetailImage_request_def
    using request_first_404 [where p = p and fetch = fetch, OF assms] by blast
  moreover obtain u' where "getDetailPetTour_request p fetch pet_params =
           (Inl (TourApiError ''API request failed with status 404'' (Some 404) None), [Request u'])"
    unfolding getDetailPetTour_request_def
    using request_first_404 [where p = p and fetch = fetch, OF assms] by blast
  ultimately show ?thesis
    by (simp add: getDetailImage_def getDetailPetTour_def client_defs)
qed

theorem getDetailImage_404_throws_witness:
  "fst (getDetailImage demo_process (answer 404 (None :: unit item_value option))
          (detail_image_params ''125266''))
     = Inl (TourApiError ''API request failed with status 404'' (Some 404) None)
   \<and> fst (getDetailPetTour demo_process (answer 404 (None :: unit item_value option))
          (detail_pet_params ''125266''))
     = Inr None"
proof -
  have key: "getApiKey demo_process = Inr ''server-key''" by code_simp
  have net: "\<forall>u. \<exists>r. answer 404 (None :: unit item_value option) u 0 = Responds r \<and> status r = 404"
    by (simp add: answer_def respond_def)
  show ?thesis
    using getDetailImage_404_throws
            [where p = demo_process and fetch = "answer 404 (None :: unit item_value option)", OF key net]
    by blast
qed

lemma request_without_key:
  "getApiKey p = Inl e \<Longrightarrow> request p fetch endpoint params = (Inl e, [])"
  by (simp add: request_def buildUrl_def getCommonParams_def and_then_def)

lemma missing_key_message_not_items:
  "\<not> includes_str missing_key_message ''items.item is missing''"
  by code_simp

lemma getApiKey_error:
  "getApiKey p = Inl e \<Longrightarrow> e = TourApiError missing_key_message None None"
  by (auto simp add: getApiKey_def Let_def split: option.splits if_splits)

lemma getApiKey_source:
  assumes "getApiKey p = Inr k"
  shows "k \<noteq> []"
    and "server_side p \<and> env p ''TOUR_API_KEY'' = Some k \<or> env p ''NEXT_PUBLIC_TOUR_API_KEY'' = Some k"
  using assms
  by (auto simp add: getApiKey_def js_or_def Let_def split: option.splits if_splits)

subsection \<open>The key in the request URL\<close>

lemma spread_keeps_first:
  "k0 \<notin> fst ` set b \<Longrightarrow> spread ((k0, v0) # a) b = (k0, v0) # spread a b"
  unfolding spread_def by (induction b arbitrary: a) auto

lemma assign_keys: "fst ` set (assign kvs k v) = insert k (fst ` set kvs)"
proof (induction kvs)
  case Nil
  show ?case by simp
next
  case (Cons kv kvs)
  obtain k' v' where kv: "kv = (k', v')" by (cases kv)
  show ?case
  proof (cases "k' = k")
    case True
    then show ?thesis by (simp add: kv)
  next
    case False
    then show ?thesis by (simp add: kv Cons.IH insert_commute)
  qed
qed

lemma spread_keys: "fst ` set (spread a b) = fst ` set a \<union> fst ` set b"
  unfolding spread_def
proof (induction b arbitrary: a)
  case Nil
  show ?case by simp
next
  case (Cons kv b)
  obtain k v where kv: "kv = (k, v)" by (cases kv)
  show ?case by (simp add: kv Cons.IH assign_keys)
qed

lemma buildUrl_with_key:
  assumes "getApiKey p = Inr k" and "''serviceKey'' \<notin> fst ` set params"
  shows "\<exists>q. buildUrl p endpoint params = Inr (BASE_URL @ endpoint, (''serviceKey'', k) # q)"
  using assms
  by (simp add: buildUrl_def getCommonParams_def and_then_def spread_keeps_first Let_def)

text \<open>
  With a key every request of a client goes to its endpoint and carries the key; the
  client makes at least one.
\<close>

lemma request_carries_key:
  assumes "getApiKey p = Inr k" and "''serviceKey'' \<notin> fst ` set params"
  shows "carries_key k endpoint (snd (request p fetch endpoint params))"
proof -
  obtain q where u: "buildUrl p endpoint params = Inr (BASE_URL @ endpoint, (''serviceKey'', k) # q)"
    using buildUrl_with_key [OF assms] by blast
  define u0 where "u0 = (BASE_URL @ endpoint, (''serviceKey'', k) # q)"
  have tr: "snd (request p fetch endpoint params) = snd (fetchWithRetry_loop fetch u0 3 0 None)"
    by (simp add: request_def u u0_def fetchWithRetry_def)
  have only: "set (requested (snd (fetchWithRetry_loop fetch u0 3 0 None))) \<subseteq> {u0}"
    by (rule loop_requested)
  have some: "requested (snd (fetchWithRetry_loop fetch u0 3 0 None)) \<noteq> []"
    by (rule loop_requests_first) simp
  have "\<forall>x \<in> set (requested (snd (fetchWithRetry_loop fetch u0 3 0 None))).
          fst x = BASE_URL @ endpoint \<and> map_of (snd x) ''serviceKey'' = Some k"
    using only by (auto simp add: u0_def)
  with some show ?thesis by (simp add: carries_key_def tr list_all_iff)
qed

lemma client_trace: "snd (case r of (fetched, tr) \<Rightarrow> (f fetched, tr)) = snd r"
  by (cases r) simp

lemma getAreaCode_carries_key:
  "getApiKey p = Inr k \<Longrightarrow> carries_key k ''/areaCode2'' (snd (getAreaCode p fetch params))"
  unfolding getAreaCode_def client_trace getAreaCode_request_def
  by (rule request_carries_key) (auto simp add: GetAreaCodeParams_entries_def split: option.splits)

lemma getAreaBasedList_carries_key:
  "getApiKey p = Inr k \<Longrightarrow> carries_key k ''/areaBasedList2'' (snd (getAreaBasedList p fetch params))"
  unfolding getAreaBasedList_def Let_def client_trace getAreaBasedList_request_def
  by (rule request_carries_key) (auto simp add: spread_keys)

lemma searchKeyword_carries_key:
  "getApiKey p = Inr k \<Longrightarrow> carries_key k ''/searchKeyword2'' (snd (searchKeyword p fetch params))"
  unfolding searchKeyword_def Let_def client_trace searchKeyword_request_def
  by (rule request_carries_key) (auto simp add: spread_keys)

lemma getDetailCommon_carries_key:
  "getApiKey p = Inr k \<Longrightarrow> carries_key k ''/detailCommon2'' (snd (getDetailCommon p fetch params))"
  unfolding getDetailCommon_def client_trace getDetailCommon_request_def
  by (rule request_carries_key) auto

lemma getDetailIntro_carries_key:
  "getApiKey p = Inr k \<Longrightarrow> carries_key k ''/detailIntro2'' (snd (getDetailIntro p fetch params))"
  unfolding getDetailIntro_def client_trace getDetailIntro_request_def
  by (rule request_carries_key) auto

lemma getDetailImage_carries_key:
  "getApiKey p = Inr k \<Longrightarrow> carries_key k ''/detailImage2'' (snd (getDetailImage p fetch params))"
  unfolding getDetailImage_def client_trace getDetailImage_request_def
  by (rule request_carries_key) auto

lemma getDetailPetTour_carries_key:
  "getApiKey p = Inr k \<Longrightarrow> carries_key k ''/detailPetTour2'' (snd (getDetailPetTour p fetch params))"
  unfolding getDetailPetTour_def client_trace getDetailPetTour_request_def
  by (rule request_carries_key) auto

lemma getApiKey_demo: "getApiKey demo_process = Inr ''server-key''"
  by (simp add: getApiKey_def js_or_def demo_process_def)

lemma getApiKey_browser: "getApiKey browser_process = Inr ''public-key''"
  by (simp add: getApiKey_def js_or_def browser_process_def)

lemma getApiKey_public_only: "getApiKey public_only_process = Inr ''public-key''"
  by (simp add: getApiKey_def js_or_def public_only_process_def)

lemma getApiKey_keyless: "getApiKey keyless_process = Inl (TourApiError missing_key_message None None)"
  by (simp add: getApiKey_def js_or_def keyless_process_def)

text \<open>
  C9. The credential is looked up in the environment that the call is given. On the server
  a non-empty \<^verbatim>\<open>TOUR_API_KEY\<close> is the key whatever \<^verbatim>\<open>NEXT_PUBLIC_TOUR_API_KEY\<close> holds; without
  it the public variable is the key, and in the browser the public variable is the only one
  read. A key that \<open>getApiKey\<close> returns is non-empty and is the value of one of the two
  variables, and it is the key of every call: each of the seven clients makes a request,
  and each of its requests goes to the endpoint of the client with the parameter
  \<^verbatim>\<open>serviceKey\<close> equal to that key. When both variables are absent \<open>getApiKey\<close> throws a
  \<open>TourApiError\<close> without status code, and whenever \<open>getApiKey\<close> throws, every one of the
  seven clients throws the same error on with an empty trace, that is before any request
  is made.
\<close>

theorem credential_from_environment:
  "(server_side p \<and> env p ''TOUR_API_KEY'' = Some k \<and> k \<noteq> [] \<longrightarrow> getApiKey p = Inr k)
 \<and> (env p ''TOUR_API_KEY'' = None \<and> env p ''NEXT_PUBLIC_TOUR_API_KEY'' = Some k \<and> k \<noteq> []
      \<longrightarrow> getApiKey p = Inr k)
 \<and> (env p ''TOUR_API_KEY'' = None \<and> env p ''NEXT_PUBLIC_TOUR_API_KEY'' = None
      \<longrightarrow> getApiKey p = Inl (TourApiError missing_key_message None None)
        \<and> statusCode (TourApiError missing_key_message None None) = None
        \<and> getAreaCode p fetch_area area_params = (Inl (TourApiError missing_key_message None None), [])
        \<and> getAreaBasedList p fetch_list list_params = (Inl (TourApiError missing_key_message None None), [])
        \<and> searchKeyword p fetch_search keyword_params = (Inl (TourApiError missing_key_message None None), [])
        \<and> getDetailCommon p fetch_common common_params = (Inl (TourApiError missing_key_message None None), [])
        \<and> getDetailIntro p fetch_intro intro_params = (Inl (TourApiError missing_key_message None None), [])
        \<and> getDetailImage p fetch_image image_params = (Inl (TourApiError missing_key_message None None), [])
        \<and> getDetailPetTour p fetch_pet pet_params = (Inl (TourApiError missing_key_message None None), []))
 \<and> (\<not> server_side p \<and> env p ''NEXT_PUBLIC_TOUR_API_KEY'' = Some k \<and> k \<noteq> []
      \<longrightarrow> getApiKey p = Inr k)
 \<and> (getApiKey p = Inr k
      \<longrightarrow> k \<noteq> []
        \<and> (server_side p \<and> env p ''TOUR_API_KEY'' = Some k
           \<or> env p ''NEXT_PUBLIC_TOUR_API_KEY'' = Some k)
        \<and> carries_key k ''/areaCode2'' (snd (getAreaCode p fetch_area area_params))
        \<and> carries_key k ''/areaBasedList2'' (snd (getAreaBasedList p fetch_list list_params))
        \<and> carries_key k ''/searchKeyword2'' (snd (searchKeyword p fetch_search keyword_params))
        \<and> carries_key k ''/detailCommon2'' (snd (getDetailCommon p fetch_common common_params))
        \<and> carries_key k ''/detailIntro2'' (snd (getDetailIntro p fetch_intro intro_params))
        \<and> carries_key k ''/detailImage2'' (snd (getDetailImage p fetch_image image_params))
        \<and> carries_key k ''/detailPetTour2'' (snd (getDetailPetTour p fetch_pet pet_params)))
 \<and> (getApiKey p = Inl e
      \<longrightarrow> e = TourApiError missing_key_message None None
        \<and> getAreaCode p fetch_area area_params = (Inl e, [])
        \<and> getAreaBasedList p fetch_list list_params = (Inl e, [])
        \<and> searchKeyword p fetch_search keyword_params = (Inl e, [])
        \<and> getDetailCommon p fetch_common common_params = (Inl e, [])
        \<and> getDetailIntro p fetch_intro intro_params = (Inl e, [])
        \<and> getDetailImage p fetch_image image_params = (Inl e, [])
        \<and> getDetailPetTour p fetch_pet pet_params = (Inl e, []))"
proof (intro conjI impI)
  assume "server_side p \<and> env p ''TOUR_API_KEY'' = Some k \<and> k \<noteq> []"
  then show "getApiKey p = Inr k" by (simp add: getApiKey_def js_or_def)
next
  assume "env p ''TOUR_API_KEY'' = None \<and> env p ''NEXT_PUBLIC_TOUR_API_KEY'' = Some k \<and> k \<noteq> []"
  then show "getApiKey p = Inr k" by (simp add: getApiKey_def js_or_def)
next
  assume "\<not> server_side p \<and> env p ''NEXT_PUBLIC_TOUR_API_KEY'' = Some k \<and> k \<noteq> []"
  then show "getApiKey p = Inr k" by (simp add: getApiKey_def js_or_def)
next
  assume key: "getApiKey p = Inr k"
  show "k \<noteq> []" by (rule getApiKey_source(1) [OF key])
  show "server_side p \<and> env p ''TOUR_API_KEY'' = Some k \<or> env p ''NEXT_PUBLIC_TOUR_API_KEY'' = Some k"
    by (rule getApiKey_source(2) [OF key])
  show "carries_key k ''/areaCode2'' (snd (getAreaCode p fetch_area area_params))"
    by (rule getAreaCode_carries_key [OF key])
  show "carries_key k ''/areaBasedList2'' (snd (getAreaBasedList p fetch_list list_params))"
    by (rule getAreaBasedList_carries_key [OF key])
  show "carries_key k ''/searchKeyword2'' (snd (searchKeyword p fetch_search keyword_params))"
    by (rule searchKeyword_carries_key [OF key])
  show "carries_key k ''/detailCommon2'' (snd (getDetailCommon p fetch_common common_params))"
    by (rule getDetailCommon_carries_key [OF key])
  show "carries_key k ''/detailIntro2'' (snd (getDetailIntro p fetch_intro intro_params))"
    by (rule getDetailIntro_carries_key [OF key])
  show "carries_key k ''/detailImage2'' (snd (getDetailImage p fetch_image image_params))"
    by (rule getDetailImage_carries_key [OF key])
  show "carries_key k ''/detailPetTour2'' (snd (getDetailPetTour p fetch_pet pet_params))"
    by (rule getDetailPetTour_carries_key [OF key])
next
  assume absent: "env p ''TOUR_API_KEY'' = None \<and> env p ''NEXT_PUBLIC_TOUR_API_KEY'' = None"
  then show key: "getApiKey p = Inl (TourApiError missing_key_message None None)"
    by (simp add: getApiKey_def js_or_def)
  note req = request_without_key [OF key]
  show "statusCode (TourApiError missing_key_message None None) = None" by simp
  show "getAreaCode p fetch_area area_params = (Inl (TourApiError missing_key_message None None), [])"
    by (simp add: getAreaCode_def getAreaCode_request_def req client_defs)
  show "getAreaBasedList p fetch_list list_params = (Inl (TourApiError missing_key_message None None), [])"
    by (simp add: getAreaBasedList_def getAreaBasedList_request_def req client_defs Let_def)
  show "searchKeyword p fetch_search keyword_params = (Inl (TourApiError missing_key_message None None), [])"
    by (simp add: searchKeyword_def searchKeyword_request_def req client_defs Let_def)
  show "getDetailCommon p fetch_common common_params = (Inl (TourApiError missing_key_message None None), [])"
    by (simp add: getDetailCommon_def getDetailCommon_request_def req client_defs)
  show "getDetailIntro p fetch_intro intro_params = (Inl (TourApiError missing_key_message None None), [])"
    by (simp add: getDetailIntro_def getDetailIntro_request_def req client_defs)
  show "getDetailImage p fetch_image image_params = (Inl (TourApiError missing_key_message None None), [])"
    by (simp add: getDetailImage_def getDetailImage_request_def req client_defs missing_key_message_not_items)
  show "getDetailPetTour p fetch_pet pet_params = (Inl (TourApiError missing_key_message None None), [])"
    by (simp add: getDetailPetTour_def getDetailPetTour_request_def req client_defs missing_key_message_not_items)
next
  assume fails: "getApiKey p = Inl e"
  show e: "e = TourApiError missing_key_message None None" by (rule getApiKey_error [OF fails])
  note req = request_without_key [OF fails [unfolded e]]
  show "getAreaCode p fetch_area area_params = (Inl e, [])"
    by (simp add: e getAreaCode_def getAreaCode_request_def req client_defs)
  show "getAreaBasedList p fetch_list list_params = (Inl e, [])"
    by (simp add: e getAreaBasedList_def getAreaBasedList_request_def req client_defs Let_def)
  show "searchKeyword p fetch_search keyword_params = (Inl e, [])"
    by (simp add: e searchKeyword_def searchKeyword_request_def req client_defs Let_def)
  show "getDetailCommon p fetch_common common_params = (Inl e, [])"
    by (simp add: e getDetailCommon_def getDetailCommon_request_def req client_defs)
  show "getDetailIntro p fetch_intro intro_params = (Inl e, [])"
    by (simp add: e getDetailIntro_def getDetailIntro_request_def req client_defs)
  show "getDetailImage p fetch_image image_params = (Inl e, [])"
    by (simp add: e getDetailImage_def getDetailImage_request_def req client_defs missing_key_message_not_items)
  show "getDetailPetTour p fetch_pet pet_params = (Inl e, [])"
    by (simp add: e getDetailPetTour_def getDetailPetTour_request_def req client_defs missing_key_message_not_items)
qed

theorem credential_from_environment_witness:
  "getApiKey demo_process = Inr ''server-key''
 \<and> getApiKey public_only_process = Inr ''public-key''
 \<and> getApiKey browser_process = Inr ''public-key''
 \<and> getApiKey keyless_process = Inl (TourApiError missing_key_message None None)
 \<and> getDetailCommon keyless_process (answer 200 (Some (Single ''a''))) (detail_common_params ''125266'')
      = (Inl (TourApiError missing_key_message None None), [])
 \<and> getDetailImage keyless_process (answer 200 (Some (Single ''a''))) (detail_image_params ''125266'')
      = (Inl (TourApiError missing_key_message None None), [])
 \<and> carries_key ''server-key'' ''/detailCommon2''
      (snd (getDetailCommon demo_process (answer 200 (Some (Single ''a''))) (detail_common_params ''125266'')))
 \<and> carries_key ''server-key'' ''/areaBasedList2''
      (snd (getAreaBasedList demo_process (answer 200 (Some (Single ''a''))) (list_query None None 1 1)))
 \<and> carries_key ''public-key'' ''/searchKeyword2''
      (snd (searchKeyword browser_process (answer 200 (Some (Single ''a''))) (search_params ''x'')))"
  using
    credential_from_environment
      [where p = demo_process and k = "''server-key''" and e = "Error []"
         and fetch_area = "answer 200 (Some (Single ''a''))" and area_params = None
         and fetch_list = "answer 200 (Some (Single ''a''))" and list_params = "list_query None None 1 1"
         and fetch_search = "answer 200 (Some (Single ''a''))" and keyword_params = "search_params ''x''"
         and fetch_common = "answer 200 (Some (Single ''a''))" and common_params = "detail_common_params ''125266''"
         and fetch_intro = "answer 200 (Some (Single ''a''))" and intro_params = "detail_intro_params ''125266'' ''12''"
         and fetch_image = "answer 200 (Some (Single ''a''))" and image_params = "detail_image_params ''125266''"
         and fetch_pet = "answer 200 (Some (Single ''a''))" and pet_params = "detail_pet_params ''125266''"]
    credential_from_environment
      [where p = public_only_process and k = "''public-key''"]
    credential_from_environment
      [where p = browser_process and k = "''public-key''" and e = "Error []"
         and fetch_area = "answer 200 (Some (Single ''a''))" and area_params = None
         and fetch_list = "answer 200 (Some (Single ''a''))" and list_params = "list_query None None 1 1"
         and fetch_search = "answer 200 (Some (Single ''a''))" and keyword_params = "search_params ''x''"
         and fetch_common = "answer 200 (Some (Single ''a''))" and common_params = "detail_common_params ''125266''"
         and fetch_intro = "answer 200 (Some (Single ''a''))" and intro_params = "detail_intro_params ''125266'' ''12''"
         and fetch_image = "answer 200 (Some (Single ''a''))" and image_params = "detail_image_params ''125266''"
         and fetch_pet = "answer 200 (Some (Single ''a''))" and pet_params = "detail_pet_params ''125266''"]
    credential_from_environment
      [where p = keyless_process and k = "''server-key''"
         and e = "TourApiError missing_key_message None None"
         and fetch_area = "answer 200 (Some (Single ''a''))" and area_params = None
         and fetch_list = "answer 200 (Some (Single ''a''))" and list_params = "list_query None None 1 1"
         and fetch_search = "answer 200 (Some (Single ''a''))" and keyword_params = "search_params ''x''"
         and fetch_common = "answer 200 (Some (Single ''a''))" and common_params = "detail_common_params ''125266''"
         and fetch_intro = "answer 200 (Some (Single ''a''))" and intro_params = "detail_intro_params ''125266'' ''12''"
         and fetch_image = "answer 200 (Some (Single ''a''))" and image_params = "detail_image_params ''125266''"
         and fetch_pet = "answer 200 (Some (Single ''a''))" and pet_params = "detail_pet_params ''125266''"]
  by (simp add: getApiKey_demo getApiKey_browser getApiKey_public_only getApiKey_keyless)

section \<open>Claims about the aggregator\<close>

lemma non_null_Cons:
  "non_null (None # rs) = non_null rs"
  "non_null (Some v # rs) = v # non_null rs"
  "non_null [] = []"
  by (simp_all add: non_null_def)

lemma non_null_region_queries:
  "non_null (map (region_query p fetch_list) areas) =
     map (\<lambda>a. \<lparr>RegionStats.code = AreaCode.code a, RegionStats.name = AreaCode.name a,
                 RegionStats.count = ListResponse.totalCount
                   (projr (fst (getAreaBasedList p fetch_list (list_query (Some (AreaCode.code a)) None 1 1))))\<rparr>)
       (filter (\<lambda>a. \<not> isl (fst (getAreaBasedList p fetch_list (list_query (Some (AreaCode.code a)) None 1 1))))
          areas)"
proof (induction areas)
  case Nil
  show ?case by (simp add: non_null_Cons)
next
  case (Cons a areas)
  show ?case
  proof (cases "fst (getAreaBasedList p fetch_list (list_query (Some (AreaCode.code a)) None 1 1))")
    case (Inl e)
    with Cons show ?thesis by (simp add: region_query_def non_null_Cons)
  next
    case (Inr result)
    with Cons show ?thesis by (simp add: region_query_def non_null_Cons)
  qed
qed

lemma getRegionStats_unfold:
  assumes "fst (getAreaCode p fetch_area None) = Inr areas"
  shows "getRegionStats p fetch_area fetch_list =
           (if non_null (map (region_query p fetch_list) areas) = [] then
              Inl (TourApiError ''Failed to get region stats: All area queries failed'' None None)
            else Inr (non_null (map (region_query p fetch_list) areas)))"
  using assms by (simp add: getRegionStats_def client_defs Let_def)

text \<open>
  C7. Let the area codes be fetched, \<open>N\<close> of them, and let \<open>M\<close> of the per-region list
  queries fail. If \<open>M < N\<close>, \<open>getRegionStats\<close> returns the \<open>N - M\<close> entries of the regions
  whose query succeeded, in the order of the area codes, each with the total of its query;
  it throws if and only if \<open>M = N\<close>.
\<close>

theorem getRegionStats_partial_failure:
  fixes p :: process and fetch_list :: "'b network" and areas :: "'z AreaCode_scheme list"
  assumes "fst (getAreaCode p fetch_area None) = Inr areas"
  defines "query \<equiv> \<lambda>a. fst (getAreaBasedList p fetch_list (list_query (Some (AreaCode.code a)) None 1 1))"
  defines "N \<equiv> length areas" and "M \<equiv> length (filter (\<lambda>a. isl (query a)) areas)"
  shows "(M < N \<longrightarrow>
           (\<exists>stats. getRegionStats p fetch_area fetch_list = Inr stats
                  \<and> length stats = N - M
                  \<and> stats = map (\<lambda>a. \<lparr>RegionStats.code = AreaCode.code a, RegionStats.name = AreaCode.name a,
                                         RegionStats.count = ListResponse.totalCount (projr (query a))\<rparr>)
                             (filter (\<lambda>a. \<not> isl (query a)) areas)))
       \<and> (isl (getRegionStats p fetch_area fetch_list) \<longleftrightarrow> M = N)"
proof -
  let ?valid = "non_null (map (region_query p fetch_list) areas)"
  have valid: "?valid = map (\<lambda>a. \<lparr>RegionStats.code = AreaCode.code a, RegionStats.name = AreaCode.name a,
                                   RegionStats.count = ListResponse.totalCount (projr (query a))\<rparr>)
                          (filter (\<lambda>a. \<not> isl (query a)) areas)"
    unfolding query_def by (rule non_null_region_queries)
  have "length (filter (\<lambda>a. isl (query a)) areas) + length (filter (\<lambda>a. \<not> isl (query a)) areas) = length areas"
    by (rule sum_length_filter_compl)
  then have len: "length ?valid = N - M" and le: "M \<le> N"
    by (simp_all add: valid N_def M_def)
  have run: "getRegionStats p fetch_area fetch_list =
           (if ?valid = [] then
              Inl (TourApiError ''Failed to get region stats: All area queries failed'' None None)
            else Inr ?valid)"
    by (rule getRegionStats_unfold [OF assms(1)])
  show ?thesis
  proof (cases "M < N")
    case True
    with len have "?valid \<noteq> []" by auto
    with run len valid True show ?thesis by auto
  next
    case False
    with le have "M = N" by simp
    with len have "?valid = []" by simp
    with run \<open>M = N\<close> show ?thesis by simp
  qed
qed

lemma demo_area_codes: "fst (getAreaCode demo_process area_network None) = Inr demo_areas"
  by code_simp

lemma demo_region_queries:
  "fst (getAreaBasedList demo_process demo_list_network (list_query (Some ''1'') None 1 1)) = Inr (one_row 7)"
  "fst (getAreaBasedList demo_process demo_list_network (list_query (Some ''2'') None 1 1)) = Inl exhausted_503"
  "fst (getAreaBasedList demo_process demo_list_network (list_query (Some ''3'') None 1 1)) = Inr (one_row 9)"
  "fst (getAreaBasedList demo_process demo_list_network (list_query (Some ''4'') None 1 1)) = Inr (one_row 7)"
  "fst (getAreaBasedList demo_process demo_list_network (list_query (Some ''5'') None 1 1)) = Inr (one_row 2)"
  by code_simp+

lemma dead_region_queries:
  "fst (getAreaBasedList demo_process dead_list_network (list_query (Some ''1'') None 1 1)) = Inl exhausted_503"
  "fst (getAreaBasedList demo_process dead_list_network (list_query (Some ''2'') None 1 1)) = Inl exhausted_503"
  "fst (getAreaBasedList demo_process dead_list_network (list_query (Some ''3'') None 1 1)) = Inl exhausted_503"
  "fst (getAreaBasedList demo_process dead_list_network (list_query (Some ''4'') None 1 1)) = Inl exhausted_503"
  "fst (getAreaBasedList demo_process dead_list_network (list_query (Some ''5'') None 1 1)) = Inl exhausted_503"
  by code_simp+

theorem getRegionStats_partial_failure_witness:
  "fst (getAreaCode demo_process area_network None) = Inr demo_areas
 \<and> length demo_areas = 5
 \<and> getRegionStats demo_process area_network demo_list_network =
      Inr [region_stat ''1'' ''Seoul'' 7, region_stat ''3'' ''Daejeon'' 9,
           region_stat ''4'' ''Daegu'' 7, region_stat ''5'' ''Gwangju'' 2]
 \<and> isl (getRegionStats demo_process area_network dead_list_network)"
  using getRegionStats_partial_failure [OF demo_area_codes, of demo_list_network]
        getRegionStats_partial_failure [OF demo_area_codes, of dead_list_network]
  by (simp del: One_nat_def
        add: demo_area_codes demo_areas_def demo_region_queries dead_region_queries
             region_stat_def one_row_def)

lemma insert_by_insort_key:
  "insert_by (\<lambda>a b. key b - key a) x ys = insort_key (\<lambda>r. - key r) x ys"
  by (induction ys) auto

lemma js_sort_sort_key:
  "js_sort (\<lambda>a b. key b - key a) xs = sort_key (\<lambda>r. - key r) xs"
proof -
  have "insert_by (\<lambda>a b. key b - key a) = insort_key (\<lambda>r. - key r)"
    by (intro ext) (rule insert_by_insort_key)
  then show ?thesis by (simp add: js_sort_def sort_key_def)
qed

lemma js_sort_stable_descending:
  "stable_descending key xs (js_sort (\<lambda>a b. key b - key a) xs)"
proof -
  let ?ys = "sort_key (\<lambda>r. - key r) xs"
  have "sorted (map (\<lambda>r. - key r) ?ys)" by (rule sorted_sort_key)
  then have "sorted_wrt (\<lambda>a b. key b \<le> key a) ?ys" by (simp add: sorted_map)
  moreover have "length ?ys = length xs" by simp
  moreover have "filter (\<lambda>x. key x = c) ?ys = filter (\<lambda>x. key x = c) xs" for c
  proof -
    have "filter (\<lambda>y. - key y = - c) ?ys = filter (\<lambda>y. - key y = - c) xs"
      by (rule sort_key_stable)
    then show ?thesis by simp
  qed
  ultimately show ?thesis by (simp add: stable_descending_def js_sort_sort_key)
qed

text \<open>The arrangement is determined by these properties: every stable sort returns it.\<close>

lemma stable_descending_unique:
  assumes "stable_descending key xs ys"
  shows "ys = js_sort (\<lambda>a b. key b - key a) xs"
proof -
  have same: "filter (\<lambda>x. key x = c) ys = filter (\<lambda>x. key x = c) xs" for c
    using assms by (simp add: stable_descending_def)
  have "mset ys = mset xs"
  proof (rule multiset_eqI)
    fix x
    have pick: "filter ((=) x) zs = filter ((=) x) (filter (\<lambda>y. key y = key x) zs)" for zs
    proof -
      have "filter ((=) x) (filter (\<lambda>y. key y = key x) zs) = filter (\<lambda>y. key y = key x \<and> x = y) zs"
        by (rule filter_filter)
      also have "\<dots> = filter ((=) x) zs"
        by (rule filter_cong) auto
      finally show ?thesis by (rule sym)
    qed
    have "filter ((=) x) ys = filter ((=) x) xs"
      using pick [of ys] pick [of xs] same [of "key x"] by simp
    then have "count_list ys x = count_list xs x"
      by (simp add: count_list_eq_length_filter)
    then show "Multiset.count (mset ys) x = Multiset.count (mset xs) x"
      by (simp add: count_mset)
  qed
  moreover have "filter (\<lambda>x. - key k = - key x) ys = filter (\<lambda>x. - key k = - key x) xs" for k
    using same [of "key k"] by (simp add: eq_commute)
  moreover have "sorted (map (\<lambda>r. - key r) ys)"
    using assms by (simp add: stable_descending_def sorted_map)
  ultimately have "sort_key (\<lambda>r. - key r) xs = ys"
    by (intro properties_for_sort_key) auto
  then show ?thesis by (simp add: js_sort_sort_key)
qed

lemma foldl_add_sum_list:
  "foldl (\<lambda>sum t. sum + f t) a xs = a + sum_list (map f xs)" for a :: int
  by (induction xs arbitrary: a) (simp_all add: add.assoc)

text \<open>
  C8. A summary that \<open>getStatsSummary\<close> returns takes \<open>totalCount\<close> from the counts of the
  type statistics (the region statistics do not enter it), and \<open>topRegions\<close> and
  \<open>topTypes\<close> are the first three entries of the two lists arranged by descending count,
  entries of equal count staying in the order of the list.
\<close>

theorem getStatsSummary_total_and_top3:
  assumes "getStatsSummary p fetch_area fetch_list now earlier = Inr summary"
  shows "\<exists>regionStats typeStats sortedRegions sortedTypes.
           getRegionStats p fetch_area fetch_list = Inr regionStats
         \<and> getTypeStats p fetch_list = Inr typeStats
         \<and> StatsSummary.totalCount summary = sum_list (map TypeStats.count typeStats)
         \<and> stable_descending RegionStats.count regionStats sortedRegions
         \<and> stable_descending TypeStats.count typeStats sortedTypes
         \<and> topRegions summary = take 3 sortedRegions
         \<and> topTypes summary = take 3 sortedTypes
         \<and> lastUpdated summary = now"
proof (cases "getRegionStats p fetch_area fetch_list")
  case (Inl e)
  with assms show ?thesis
    by (simp add: getStatsSummary_def Promise_all2_def client_defs
          split: if_splits sum.splits earlier_rejection.splits)
next
  case regions: (Inr regionStats)
  show ?thesis
  proof (cases "getTypeStats p fetch_list")
    case (Inl e)
    with assms regions show ?thesis
      by (simp add: getStatsSummary_def Promise_all2_def client_defs
          split: if_splits sum.splits earlier_rejection.splits)
  next
    case types: (Inr typeStats)
    let ?sortedRegions = "js_sort (\<lambda>a b. RegionStats.count b - RegionStats.count a) regionStats"
    let ?sortedTypes = "js_sort (\<lambda>a b. TypeStats.count b - TypeStats.count a) typeStats"
    from assms regions types have summary:
      "summary = \<lparr>StatsSummary.totalCount = foldl (\<lambda>sum t. sum + TypeStats.count t) 0 typeStats,
                  topRegions = take 3 ?sortedRegions, topTypes = take 3 ?sortedTypes,
                  lastUpdated = now\<rparr>"
      by (simp add: getStatsSummary_def Promise_all2_def client_defs Let_def)
    have "StatsSummary.totalCount summary = sum_list (map TypeStats.count typeStats)"
      by (simp add: summary foldl_add_sum_list)
    moreover have "stable_descending RegionStats.count regionStats ?sortedRegions"
      by (rule js_sort_stable_descending)
    moreover have "stable_descending TypeStats.count typeStats ?sortedTypes"
      by (rule js_sort_stable_descending)
    moreover have "topRegions summary = take 3 ?sortedRegions" "topTypes summary = take 3 ?sortedTypes"
      "lastUpdated summary = now"
      by (simp_all add: summary)
    ultimately show ?thesis using regions types by blast
  qed
qed

lemma demo_region_stats:
  "getRegionStats demo_process area_network demo_list_network =
     Inr [region_stat ''1'' ''Seoul'' 7, region_stat ''3'' ''Daejeon'' 9,
          region_stat ''4'' ''Daegu'' 7, region_stat ''5'' ''Gwangju'' 2]"
  by (simp del: One_nat_def
        add: getRegionStats_unfold [OF demo_area_codes] demo_areas_def region_query_def
             demo_region_queries non_null_Cons region_stat_def one_row_def)

lemma demo_type_queries:
  "fst (getAreaBasedList demo_process demo_list_network (list_query None (Some ''12'') 1 1)) = Inr (one_row 23)"
  "fst (getAreaBasedList demo_process demo_list_network (list_query None (Some ''14'') 1 1)) = Inr (one_row 57)"
  "fst (getAreaBasedList demo_process demo_list_network (list_query None (Some ''15'') 1 1)) = Inl exhausted_503"
  "fst (getAreaBasedList demo_process demo_list_network (list_query None (Some ''25'') 1 1)) = Inl exhausted_503"
  "fst (getAreaBasedList demo_process demo_list_network (list_query None (Some ''28'') 1 1)) = Inl exhausted_503"
  "fst (getAreaBasedList demo_process demo_list_network (list_query None (Some ''32'') 1 1)) = Inl exhausted_503"
  "fst (getAreaBasedList demo_process demo_list_network (list_query None (Some ''38'') 1 1)) = Inl exhausted_503"
  "fst (getAreaBasedList demo_process demo_list_network (list_query None (Some ''39'') 1 1)) = Inl exhausted_503"
  by code_simp+

lemma getTypeStats_unfold:
  "getTypeStats p fetch_list =
     (if non_null (map (type_query p fetch_list) CONTENT_TYPES) = [] then
        Inl (TourApiError ''Failed to get type stats: All content type queries failed'' None None)
      else Inr (with_percentages (non_null (map (type_query p fetch_list) CONTENT_TYPES))))"
  by (simp add: getTypeStats_def getAllContentTypes_def client_defs Let_def)

lemma demo_valid_types:
  "non_null (map (type_query demo_process demo_list_network) CONTENT_TYPES) =
     [type_stat ''12'' 23 None, type_stat ''14'' 57 None]"
  by (simp del: One_nat_def
        add: CONTENT_TYPES_def type_query_def demo_type_queries non_null_Cons type_stat_def one_row_def)

lemma percentage_of_23_80: "percentage_of 23 80 = fl (287 / 10)"
  by code_simp

lemma percentage_of_57_80: "percentage_of 57 80 = fl (713 / 10)"
  by code_simp

lemma demo_type_stats:
  "getTypeStats demo_process demo_list_network =
     Inr [type_stat ''12'' 23 (Some (fl (287 / 10))), type_stat ''14'' 57 (Some (fl (713 / 10)))]"
  by (simp add: getTypeStats_unfold demo_valid_types with_percentages_def type_stat_def
        percentage_of_23_80 percentage_of_57_80)

lemma demo_stats_summary:
  "getStatsSummary demo_process area_network demo_list_network ''2026-01-01T00:00:00.000Z'' earlier
     = Inr demo_summary"
  by (simp add: getStatsSummary_def Promise_all2_def demo_region_stats demo_type_stats client_defs js_sort_def
        region_stat_def type_stat_def demo_summary_def)

theorem getStatsSummary_total_and_top3_witness:
  "getStatsSummary demo_process area_network demo_list_network ''2026-01-01T00:00:00.000Z'' FirstRejects
     = Inr demo_summary
 \<and> StatsSummary.totalCount demo_summary = 23 + 57
 \<and> map RegionStats.code (topRegions demo_summary) = [''3'', ''1'', ''4'']
 \<and> (\<exists>regionStats typeStats sortedRegions sortedTypes.
           getRegionStats demo_process area_network demo_list_network = Inr regionStats
         \<and> getTypeStats demo_process demo_list_network = Inr typeStats
         \<and> StatsSummary.totalCount demo_summary = sum_list (map TypeStats.count typeStats)
         \<and> stable_descending RegionStats.count regionStats sortedRegions
         \<and> stable_descending TypeStats.count typeStats sortedTypes
         \<and> topRegions demo_summary = take 3 sortedRegions
         \<and> topTypes demo_summary = take 3 sortedTypes
         \<and> lastUpdated demo_summary = ''2026-01-01T00:00:00.000Z'')"
proof -
  have "StatsSummary.totalCount demo_summary = 23 + 57"
    and "map RegionStats.code (topRegions demo_summary) = [''3'', ''1'', ''4'']"
    by (simp_all add: demo_summary_def region_stat_def)
  then show ?thesis
    using getStatsSummary_total_and_top3 [OF demo_stats_summary] demo_stats_summary by blast
qed

section \<open>The rounding error of binary64\<close>

text \<open>
  \<open>fl\<close> moves a number by at most the fraction \<open>2^-53\<close> of its magnitude. Three such
  steps take \<^verbatim>\<open>(count / total) * 100 * 10\<close> no further than \<open>7000 / 2^53\<close> from the exact
  \<open>1000 * count / total\<close>, which is less than the distance \<open>1 / (2 * total)\<close> between that
  number and the nearest half-integer it is not equal to, as long as \<open>total < 2^39\<close>.
\<close>

lemma pow2_powi: "pow2 e = 2 powi e"
  by (simp add: pow2_def power_int_def power_inverse [symmetric] inverse_eq_divide power_one_over)

lemma pow2_pos: "0 < pow2 e"
  by (simp add: pow2_powi zero_less_power_int)

lemma pow2_add: "pow2 (a + b) = pow2 a * pow2 b"
  by (simp add: pow2_powi power_int_add)

lemma pow2_nat: "pow2 (int n) = 2 ^ n"
  by (simp add: pow2_def)

lemma pow2_neg_nat: "pow2 (- int n) = 1 / 2 ^ n"
  by (simp add: pow2_powi power_int_minus inverse_eq_divide)

lemma bitlen_nonneg: "0 \<le> bitlen n"
  by (induction n rule: bitlen.induct) (subst bitlen.simps, simp)

lemma bitlen_bounds:
  "0 < n \<Longrightarrow> 2 ^ nat (bitlen n - 1) \<le> n \<and> n < 2 ^ nat (bitlen n)"
proof (induction n rule: bitlen.induct)
  case (1 n)
  show ?case
  proof (cases "n = 1")
    case True
    have "bitlen 1 = 1"
      by (subst bitlen.simps, simp, subst bitlen.simps, simp)
    with True show ?thesis by simp
  next
    case False
    with 1 have pos: "0 < n div 2" by simp
    with 1 have ih: "2 ^ nat (bitlen (n div 2) - 1) \<le> n div 2" "n div 2 < 2 ^ nat (bitlen (n div 2))"
      by simp_all
    have bl: "bitlen n = 1 + bitlen (n div 2)" using 1(2) by (subst bitlen.simps) simp
    have ge1: "1 \<le> bitlen (n div 2)"
      using pos by (subst bitlen.simps) (simp add: bitlen_nonneg)
    have e1: "nat (bitlen n - 1) = Suc (nat (bitlen (n div 2) - 1))"
      using bl ge1 by simp
    have e2: "nat (bitlen n) = Suc (nat (bitlen (n div 2)))"
      using bl ge1 by simp
    from ih show ?thesis unfolding e1 e2 by simp linarith
  qed
qed

lemma round_half_even_error: "\<bar>of_int (round_half_even x) - x\<bar> \<le> 1 / 2"
proof -
  have "of_int \<lfloor>x\<rfloor> \<le> x" "x < of_int \<lfloor>x\<rfloor> + 1" by linarith+
  then show ?thesis
    by (auto simp add: round_half_even_def Let_def abs_le_iff)
qed


lemma ilog2_lower: 
  assumes "q \<noteq> 0"
  shows "pow2 (ilog2 q) \<le> \<bar>q\<bar>"
proof -
  obtain a b where ab: "quotient_of \<bar>q\<bar> = (a, b)" by (cases "quotient_of \<bar>q\<bar>")
  then have b: "0 < b" and q: "\<bar>q\<bar> = of_int a / of_int b"
    by (auto dest: quotient_of_denom_pos quotient_of_div)
  have "0 < \<bar>q\<bar>" using assms by simp
  with q b have a: "0 < a" by (simp add: zero_less_divide_iff)
  let ?d = "bitlen a - bitlen b"
  show ?thesis
  proof (cases "pow2 ?d \<le> \<bar>q\<bar>")
    case True
    then show ?thesis by (simp add: ilog2_def ab Let_def)
  next
    case False
    then have il: "ilog2 q = ?d - 1" by (simp add: ilog2_def ab Let_def)
    from bitlen_bounds [OF a] have la: "2 ^ nat (bitlen a - 1) \<le> a" by simp
    from bitlen_bounds [OF b] have lb: "b < 2 ^ nat (bitlen b)" by simp
    have la1: "1 \<le> bitlen a" using a by (subst bitlen.simps) (simp add: bitlen_nonneg)
    have "?d - 1 = (bitlen a - 1) + (- bitlen b)" by simp
    then have "pow2 (?d - 1) = pow2 ((bitlen a - 1) + (- bitlen b))" by (rule arg_cong)
    also have "\<dots> = pow2 (bitlen a - 1) * pow2 (- bitlen b)" by (rule pow2_add)
    also have "pow2 (bitlen a - 1) = 2 ^ nat (bitlen a - 1)"
      using la1 by (simp add: pow2_def)
    also have "pow2 (- bitlen b) = 1 / 2 ^ nat (bitlen b)"
      using pow2_neg_nat [of "nat (bitlen b)"] bitlen_nonneg [of b] by simp
    finally have eq: "pow2 (?d - 1) = 2 ^ nat (bitlen a - 1) / 2 ^ nat (bitlen b)" by simp
    have "(2::rat) ^ nat (bitlen a - 1) \<le> of_int a"
      using la by (metis of_int_le_iff of_int_numeral of_int_power)
    moreover have "(of_int b :: rat) \<le> 2 ^ nat (bitlen b)"
      using lb by (metis less_imp_le of_int_le_iff of_int_numeral of_int_power)
    moreover have "(0::rat) < of_int b" using b by simp
    moreover have "(0::rat) \<le> of_int a" using a by simp
    ultimately have "(2::rat) ^ nat (bitlen a - 1) / 2 ^ nat (bitlen b) \<le> of_int a / of_int b"
      by (intro frac_le) simp_all
    with eq q il show ?thesis by simp
  qed
qed

lemma fl_error: "\<bar>fl q - q\<bar> \<le> \<bar>q\<bar> / 2 ^ 53"
proof (cases "q = 0")
  case True
  then show ?thesis by (simp add: fl_def)
next
  case False
  define e where "e = ilog2 q - 52"
  define x where "x = q / pow2 e"
  have pe: "0 < pow2 e" by (rule pow2_pos)
  have flq: "fl q = of_int (round_half_even x) * pow2 e"
    using False by (simp add: fl_def Let_def e_def x_def)
  have qx: "q = x * pow2 e" using pe by (simp add: x_def)
  have "fl q - q = (of_int (round_half_even x) - x) * pow2 e"
    by (subst qx) (simp add: flq algebra_simps)
  then have "\<bar>fl q - q\<bar> = \<bar>of_int (round_half_even x) - x\<bar> * pow2 e"
    using pe by (simp add: abs_mult)
  also have "\<dots> \<le> 1 / 2 * pow2 e"
    using round_half_even_error [of x] pe by (intro mult_right_mono) simp_all
  also have "pow2 e = pow2 (ilog2 q) * pow2 (- 52)"
    unfolding e_def using pow2_add [of "ilog2 q" "- 52"] by simp
  also have "pow2 (- 52) = 1 / 2 ^ 52"
    using pow2_neg_nat [of 52] by simp
  finally have "\<bar>fl q - q\<bar> \<le> pow2 (ilog2 q) / 2 ^ 53" by simp
  also have "\<dots> \<le> \<bar>q\<bar> / 2 ^ 53"
    using ilog2_lower [OF False] by (simp add: divide_right_mono)
  finally show ?thesis .
qed


lemma fl_bounds:
  assumes "\<bar>q\<bar> \<le> b"
  shows "\<bar>fl q - q\<bar> \<le> b / 2 ^ 53" and "\<bar>fl q\<bar> \<le> 2 * b"
proof -
  have "\<bar>q\<bar> / 2 ^ 53 \<le> b / 2 ^ 53" using assms by (simp add: divide_right_mono)
  with fl_error [of q] show e: "\<bar>fl q - q\<bar> \<le> b / 2 ^ 53" by linarith
  have "b / 2 ^ 53 \<le> b" using assms by (simp add: field_simps)
  with e assms show "\<bar>fl q\<bar> \<le> 2 * b" by linarith
qed

lemma scaled_close:
  assumes "0 \<le> q" and "q \<le> 1"
  shows "\<bar>fl (fl (fl q * 100) * 10) - 1000 * q\<bar> \<le> 7000 / 2 ^ 53"
proof -
  define x1 where "x1 = fl q"
  define x2 where "x2 = fl (x1 * 100)"
  define z where "z = fl (x2 * 10)"
  have q1: "\<bar>q\<bar> \<le> 1" using assms by simp
  have e1: "\<bar>x1 - q\<bar> \<le> 1 / 2 ^ 53" and b1: "\<bar>x1\<bar> \<le> 2"
    using fl_bounds [OF q1] by (simp_all add: x1_def)
  have y1: "\<bar>x1 * 100\<bar> \<le> 200" using b1 by (simp add: abs_mult)
  have e2: "\<bar>x2 - x1 * 100\<bar> \<le> 200 / 2 ^ 53" and b2: "\<bar>x2\<bar> \<le> 400"
    using fl_bounds [OF y1] by (simp_all add: x2_def)
  have y2: "\<bar>x2 * 10\<bar> \<le> 4000" using b2 by (simp add: abs_mult)
  have e3: "\<bar>z - x2 * 10\<bar> \<le> 4000 / 2 ^ 53"
    using fl_bounds(1) [OF y2] by (simp add: z_def)
  have split: "z - 1000 * q = (z - x2 * 10) + 10 * (x2 - x1 * 100) + 1000 * (x1 - q)" by simp
  have "\<bar>(z - x2 * 10) + 10 * (x2 - x1 * 100) + 1000 * (x1 - q)\<bar>
          \<le> \<bar>z - x2 * 10\<bar> + \<bar>10 * (x2 - x1 * 100)\<bar> + \<bar>1000 * (x1 - q)\<bar>"
    using abs_triangle_ineq [of "(z - x2 * 10) + 10 * (x2 - x1 * 100)" "1000 * (x1 - q)"]
          abs_triangle_ineq [of "z - x2 * 10" "10 * (x2 - x1 * 100)"]
    by linarith
  then have "\<bar>z - 1000 * q\<bar> \<le> \<bar>z - x2 * 10\<bar> + 10 * \<bar>x2 - x1 * 100\<bar> + 1000 * \<bar>x1 - q\<bar>"
    unfolding split by (simp only: abs_mult abs_numeral)
  also have "\<dots> \<le> 4000 / 2 ^ 53 + 10 * (200 / 2 ^ 53) + 1000 * (1 / 2 ^ 53)"
    using e1 e2 e3 by (intro add_mono mult_left_mono) simp_all
  also have "\<dots> = 7000 / 2 ^ 53" by simp
  finally show ?thesis by (simp add: z_def x2_def x1_def)
qed

lemma Math_round_near:
  fixes c t :: int and z :: rat
  assumes t: "0 < t" "t < 2 ^ 39"
    and close: "\<bar>z - of_int (1000 * c) / of_int t\<bar> \<le> 7000 / 2 ^ 53"
  shows "Math_round z = \<lfloor>of_int (1000 * c) / of_int t + 1 / 2 :: rat\<rfloor>
       \<or> (Math_round z = \<lfloor>of_int (1000 * c) / of_int t + 1 / 2 :: rat\<rfloor> - 1
          \<and> 2 * t dvd 2000 * c + t)"
proof -
  define n where "n = 2 * t"
  define m where "m = 2000 * c + t"
  define k0 where "k0 = m div n"
  define r where "r = m mod n"
  define eps :: rat where "eps = 7000 / 2 ^ 53"
  define rho :: rat where "rho = of_int r / of_int n"
  have n: "0 < n" "n < 2 ^ 40" using t by (simp_all add: n_def)
  have r: "0 \<le> r" "r < n" using n by (simp_all add: r_def)
  have m: "m = k0 * n + r" by (simp add: k0_def r_def)
  have nr: "(0::rat) < of_int n" using n by simp
  have w: "of_int (1000 * c) / of_int t + 1 / 2 = (of_int k0 + rho :: rat)"
  proof -
    have "of_int (1000 * c) / of_int t + 1 / 2 = (of_int m / of_int n :: rat)"
      using t by (simp add: m_def n_def field_simps)
    also have "\<dots> = of_int k0 + rho"
      using nr by (simp add: m rho_def field_simps)
    finally show ?thesis .
  qed
  have rho: "0 \<le> rho" "rho < 1" using r nr by (simp_all add: rho_def)
  have floor0: "\<lfloor>of_int (1000 * c) / of_int t + 1 / 2 :: rat\<rfloor> = k0"
    unfolding w using rho by (simp add: floor_unique)
  have "(of_int n :: rat) < 2 ^ 40" using n(2) by (metis of_int_less_iff of_int_numeral of_int_power)
  then have "eps * of_int n < eps * 2 ^ 40"
    by (intro mult_strict_left_mono) (simp_all add: eps_def)
  also have "eps * 2 ^ 40 < 1" by (simp add: eps_def)
  finally have "eps * of_int n < 1" .
  then have eps: "eps < 1 / of_int n" using nr by (simp add: pos_less_divide_eq)
  have "(z + 1 / 2) - (of_int k0 + rho) = z - of_int (1000 * c) / of_int t"
    using w by linarith
  then have zw: "\<bar>(z + 1 / 2) - (of_int k0 + rho)\<bar> \<le> eps"
    using close by (simp only: eps_def)
  have eps1: "eps < 1" by (simp add: eps_def)
  show ?thesis
  proof (cases "r = 0")
    case True
    then have "n dvd m" by (simp add: r_def dvd_eq_mod_eq_0)
    then have dvd: "2 * t dvd 2000 * c + t" by (simp add: n_def m_def)
    have "rho = 0" using True by (simp add: rho_def)
    with zw eps1 have "of_int (k0 - 1) \<le> z + 1 / 2" "z + 1 / 2 < of_int k0 + 1" by simp_all
    then have "\<lfloor>z + 1 / 2\<rfloor> = k0 \<or> \<lfloor>z + 1 / 2\<rfloor> = k0 - 1"
      by (metis (no_types) add.commute diff_add_cancel floor_unique le_floor_iff less_floor_iff
            not_less zle_diff1_eq of_int_diff of_int_1)
    with dvd floor0 show ?thesis by (auto simp add: Math_round_def)
  next
    case False
    with r have r1: "1 \<le> r" "r \<le> n - 1" by simp_all
    have "(1::rat) / of_int n \<le> rho"
      unfolding rho_def using r1(1) nr by (intro divide_right_mono) simp_all
    moreover have "rho \<le> 1 - 1 / of_int n"
    proof -
      have "rho \<le> of_int (n - 1) / of_int n"
        unfolding rho_def using r1(2) nr by (intro divide_right_mono) simp_all
      also have "\<dots> = 1 - 1 / of_int n" using nr by (simp add: field_simps)
      finally show ?thesis .
    qed
    ultimately have "of_int k0 \<le> z + 1 / 2" "z + 1 / 2 < of_int k0 + 1"
      using zw eps by linarith+
    then have "\<lfloor>z + 1 / 2\<rfloor> = k0" by (simp add: floor_unique)
    with floor0 show ?thesis by (simp add: Math_round_def)
  qed
qed

lemma percentage_of_close:
  assumes "0 \<le> c" and "c \<le> t" and "0 < t" and "t < 2 ^ 39"
  shows "\<exists>k. percentage_of c t = fl (of_int k / 10)
           \<and> (k = \<lfloor>of_int (1000 * c) / of_int t + 1 / 2 :: rat\<rfloor>
              \<or> (k = \<lfloor>of_int (1000 * c) / of_int t + 1 / 2 :: rat\<rfloor> - 1
                 \<and> 2 * t dvd 2000 * c + t))"
proof -
  define q :: rat where "q = of_int c / of_int t"
  define z where "z = fl (fl (fl q * 100) * 10)"
  have "0 \<le> q" "q \<le> 1" using assms by (simp_all add: q_def)
  then have "\<bar>z - 1000 * q\<bar> \<le> 7000 / 2 ^ 53"
    unfolding z_def by (rule scaled_close)
  then have "\<bar>z - of_int (1000 * c) / of_int t\<bar> \<le> 7000 / 2 ^ 53"
    by (simp add: q_def)
  from Math_round_near [OF assms(3,4) this]
  have "Math_round z = \<lfloor>of_int (1000 * c) / of_int t + 1 / 2 :: rat\<rfloor>
       \<or> (Math_round z = \<lfloor>of_int (1000 * c) / of_int t + 1 / 2 :: rat\<rfloor> - 1
          \<and> 2 * t dvd 2000 * c + t)" .
  moreover have "percentage_of c t = fl (of_int (Math_round z) / 10)"
    using assms(3) by (simp add: percentage_of_def z_def q_def)
  ultimately show ?thesis by blast
qed

text \<open>The exponent that \<open>fl\<close> uses is the binary exponent of its argument.\<close>

lemma ilog2_upper:
  assumes "q \<noteq> 0"
  shows "\<bar>q\<bar> < pow2 (ilog2 q + 1)"
proof -
  obtain a b where ab: "quotient_of \<bar>q\<bar> = (a, b)" by (cases "quotient_of \<bar>q\<bar>")
  then have b: "0 < b" and q: "\<bar>q\<bar> = of_int a / of_int b"
    by (auto dest: quotient_of_denom_pos quotient_of_div)
  have "0 < \<bar>q\<bar>" using assms by simp
  with q b have a: "0 < a" by (simp add: zero_less_divide_iff)
  let ?d = "bitlen a - bitlen b"
  show ?thesis
  proof (cases "pow2 ?d \<le> \<bar>q\<bar>")
    case False
    then show ?thesis by (simp add: ilog2_def ab Let_def)
  next
    case True
    then have il: "ilog2 q = ?d" by (simp add: ilog2_def ab Let_def)
    from bitlen_bounds [OF a] have la: "a < 2 ^ nat (bitlen a)" by simp
    from bitlen_bounds [OF b] have lb: "2 ^ nat (bitlen b - 1) \<le> b" by simp
    have lb1: "1 \<le> bitlen b" using b by (subst bitlen.simps) (simp add: bitlen_nonneg)
    have "?d + 1 = bitlen a + (- (bitlen b - 1))" by simp
    then have "pow2 (?d + 1) = pow2 (bitlen a + (- (bitlen b - 1)))" by (rule arg_cong)
    also have "\<dots> = pow2 (bitlen a) * pow2 (- (bitlen b - 1))" by (rule pow2_add)
    also have "pow2 (bitlen a) = 2 ^ nat (bitlen a)"
      using bitlen_nonneg [of a] by (simp add: pow2_def)
    also have "pow2 (- (bitlen b - 1)) = 1 / 2 ^ nat (bitlen b - 1)"
      using pow2_neg_nat [of "nat (bitlen b - 1)"] lb1 by simp
    finally have eq: "pow2 (?d + 1) = 2 ^ nat (bitlen a) / 2 ^ nat (bitlen b - 1)" by simp
    have "(of_int a :: rat) < 2 ^ nat (bitlen a)"
      using la by (metis of_int_less_iff of_int_numeral of_int_power)
    moreover have "(2::rat) ^ nat (bitlen b - 1) \<le> of_int b"
      using lb by (metis of_int_le_iff of_int_numeral of_int_power)
    moreover have "(0::rat) < 2 ^ nat (bitlen b - 1)" by simp
    moreover have "(0::rat) \<le> of_int a" using a by simp
    ultimately have "(of_int a :: rat) / of_int b < 2 ^ nat (bitlen a) / 2 ^ nat (bitlen b - 1)"
      by (intro frac_less) simp_all
    with eq q il show ?thesis by simp
  qed
qed

lemma pow2_mono: "a \<le> b \<Longrightarrow> pow2 a \<le> pow2 b"
  by (simp add: pow2_powi power_int_increasing)

lemma pow2_less_imp: "pow2 a < pow2 b \<Longrightarrow> a < b"
  using pow2_mono [of b a] by (cases "a < b") simp_all

lemma round_half_even_of_int: "round_half_even (of_int m) = m"
  by (simp add: round_half_even_def)

text \<open>Integers of magnitude below \<open>2^53\<close> are binary64 values: \<open>fl\<close> leaves them alone.\<close>

lemma fl_of_int:
  assumes "\<bar>n\<bar> < 2 ^ 53"
  shows "fl (of_int n) = of_int n"
proof (cases "n = 0")
  case True
  then show ?thesis by (simp add: fl_def)
next
  case False
  define q :: rat where "q = of_int n"
  have q0: "q \<noteq> 0" using False by (simp add: q_def)
  have "\<bar>q\<bar> < 2 ^ 53"
    unfolding q_def using assms by (metis of_int_abs of_int_less_iff of_int_numeral of_int_power)
  then have "pow2 (ilog2 q) < pow2 53"
    using ilog2_lower [OF q0] pow2_nat [of 53] by simp
  then have "ilog2 q < 53" by (rule pow2_less_imp)
  define j where "j = nat (52 - ilog2 q)"
  have j: "ilog2 q - 52 = - int j" using \<open>ilog2 q < 53\<close> by (simp add: j_def)
  have "q / pow2 (ilog2 q - 52) = q * 2 ^ j"
    by (simp add: j pow2_neg_nat)
  also have "\<dots> = of_int (n * 2 ^ j)"
    by (simp add: q_def)
  finally have "q / pow2 (ilog2 q - 52) = of_int (n * 2 ^ j)" .
  then have "round_half_even (q / pow2 (ilog2 q - 52)) = n * 2 ^ j"
    by (simp only: round_half_even_of_int)
  then have "fl q = of_int (n * 2 ^ j) * pow2 (- int j)"
    using q0 by (simp add: fl_def Let_def j)
  also have "\<dots> = q" by (simp add: pow2_neg_nat q_def)
  finally show ?thesis by (simp add: q_def)
qed

section \<open>Claims about the type statistics\<close>

lemma with_percentages_sum:
  "with_percentages valid =
     map (\<lambda>r. r\<lparr>TypeStats.percentage :=
                   Some (percentage_of (TypeStats.count r) (sum_list (map TypeStats.count valid)))\<rparr>)
       valid"
  by (simp add: with_percentages_def foldl_add_sum_list)

lemma percentage_of_zero_total: "percentage_of c 0 = 0"
  by (simp add: percentage_of_def)

text \<open>
  C6, as the code has it. The percentages are computed from the sum of the counts of all
  queries that succeeded. Each is \<^verbatim>\<open>Math.round((count / total) * 100 * 10) / 10\<close> in
  binary64, and 0 when the sum is 0, where nothing is divided. For counts between 0 and a
  sum below \<open>2^39\<close> the rounded number of tenths is the nearest integer to
  \<open>1000 * count / total\<close>, halves up, except that where \<open>1000 * count / total\<close> lies exactly
  halfway between two integers it may be the lower of the two.
\<close>

theorem getTypeStats_percentages:
  assumes "getTypeStats p fetch_list = Inr stats"
  shows "\<exists>valid tot.
           valid = non_null (map (type_query p fetch_list) getAllContentTypes)
         \<and> tot = sum_list (map TypeStats.count valid)
         \<and> stats = map (\<lambda>r. r\<lparr>TypeStats.percentage := Some (percentage_of (TypeStats.count r) tot)\<rparr>) valid
         \<and> (tot = 0 \<longrightarrow> (\<forall>s \<in> set stats. TypeStats.percentage s = Some 0))
         \<and> ((\<forall>s \<in> set stats. 0 \<le> TypeStats.count s) \<and> 0 < tot \<and> tot < 2 ^ 39 \<longrightarrow>
               (\<forall>s \<in> set stats. \<exists>k.
                   TypeStats.percentage s = Some (fl (of_int k / 10))
                 \<and> (k = \<lfloor>of_int (1000 * TypeStats.count s) / of_int tot + 1 / 2 :: rat\<rfloor>
                    \<or> (k = \<lfloor>of_int (1000 * TypeStats.count s) / of_int tot + 1 / 2 :: rat\<rfloor> - 1
                       \<and> 2 * tot dvd 2000 * TypeStats.count s + tot))))"
proof -
  define valid where "valid = non_null (map (type_query p fetch_list) getAllContentTypes)"
  define tot where "tot = sum_list (map TypeStats.count valid)"
  have stats: "stats = map (\<lambda>r. r\<lparr>TypeStats.percentage := Some (percentage_of (TypeStats.count r) tot)\<rparr>) valid"
    using assms
    by (simp add: getTypeStats_unfold getAllContentTypes_def valid_def tot_def with_percentages_sum
          split: if_splits)
  have zero: "TypeStats.percentage s = Some 0" if "tot = 0" "s \<in> set stats" for s
    using that by (auto simp add: stats percentage_of_zero_total)
  have near: "\<exists>k. TypeStats.percentage s = Some (fl (of_int k / 10))
                 \<and> (k = \<lfloor>of_int (1000 * TypeStats.count s) / of_int tot + 1 / 2 :: rat\<rfloor>
                    \<or> (k = \<lfloor>of_int (1000 * TypeStats.count s) / of_int tot + 1 / 2 :: rat\<rfloor> - 1
                       \<and> 2 * tot dvd 2000 * TypeStats.count s + tot))"
    if nonneg: "\<forall>s \<in> set stats. 0 \<le> TypeStats.count s" and tot: "0 < tot" "tot < 2 ^ 39"
      and s: "s \<in> set stats" for s
  proof -
    from s obtain r where r: "r \<in> set valid"
      and sr: "s = r\<lparr>TypeStats.percentage := Some (percentage_of (TypeStats.count r) tot)\<rparr>"
      by (auto simp add: stats)
    have counts: "map TypeStats.count stats = map TypeStats.count valid"
      by (simp add: stats comp_def)
    have all_nonneg: "\<forall>x \<in> set (map TypeStats.count valid). 0 \<le> x"
      using nonneg counts [symmetric] by (metis (no_types, lifting) imageE list.set_map)
    have "TypeStats.count r \<in> set (map TypeStats.count valid)" using r by simp
    then have le: "TypeStats.count r \<le> tot"
      unfolding tot_def using all_nonneg by (intro member_le_sum_list) auto
    have ge: "0 \<le> TypeStats.count r" using all_nonneg r by simp
    from percentage_of_close [OF ge le tot] sr show ?thesis by simp
  qed
  have c4: "tot = 0 \<longrightarrow> (\<forall>s \<in> set stats. TypeStats.percentage s = Some 0)"
    using zero by simp
  have c5: "(\<forall>s \<in> set stats. 0 \<le> TypeStats.count s) \<and> 0 < tot \<and> tot < 2 ^ 39 \<longrightarrow>
               (\<forall>s \<in> set stats. \<exists>k.
                   TypeStats.percentage s = Some (fl (of_int k / 10))
                 \<and> (k = \<lfloor>of_int (1000 * TypeStats.count s) / of_int tot + 1 / 2 :: rat\<rfloor>
                    \<or> (k = \<lfloor>of_int (1000 * TypeStats.count s) / of_int tot + 1 / 2 :: rat\<rfloor> - 1
                       \<and> 2 * tot dvd 2000 * TypeStats.count s + tot)))"
  proof (intro impI ballI)
    fix s
    assume h: "(\<forall>s \<in> set stats. 0 \<le> TypeStats.count s) \<and> 0 < tot \<and> tot < 2 ^ 39"
      and s: "s \<in> set stats"
    from h have "\<forall>s \<in> set stats. 0 \<le> TypeStats.count s" "0 < tot" "tot < 2 ^ 39" by simp_all
    from near [OF this s]
    show "\<exists>k. TypeStats.percentage s = Some (fl (of_int k / 10))
                 \<and> (k = \<lfloor>of_int (1000 * TypeStats.count s) / of_int tot + 1 / 2 :: rat\<rfloor>
                    \<or> (k = \<lfloor>of_int (1000 * TypeStats.count s) / of_int tot + 1 / 2 :: rat\<rfloor> - 1
                       \<and> 2 * tot dvd 2000 * TypeStats.count s + tot))" .
  qed
  show ?thesis
    by (rule exI [of _ valid], rule exI [of _ tot]) (intro conjI valid_def tot_def stats c4 c5)
qed

lemma example_type_queries:
  "fst (getAreaBasedList demo_process example_list_network (list_query None (Some ''12'') 1 1)) = Inr (one_row 10)"
  "fst (getAreaBasedList demo_process example_list_network (list_query None (Some ''14'') 1 1)) = Inr no_row"
  "fst (getAreaBasedList demo_process example_list_network (list_query None (Some ''15'') 1 1)) = Inr (one_row 30)"
  "fst (getAreaBasedList demo_process example_list_network (list_query None (Some ''25'') 1 1)) = Inl exhausted_503"
  "fst (getAreaBasedList demo_process example_list_network (list_query None (Some ''28'') 1 1)) = Inl exhausted_503"
  "fst (getAreaBasedList demo_process example_list_network (list_query None (Some ''32'') 1 1)) = Inl exhausted_503"
  "fst (getAreaBasedList demo_process example_list_network (list_query None (Some ''38'') 1 1)) = Inl exhausted_503"
  "fst (getAreaBasedList demo_process example_list_network (list_query None (Some ''39'') 1 1)) = Inl exhausted_503"
  by code_simp+

lemma empty_type_queries:
  "fst (getAreaBasedList demo_process empty_list_network (list_query None (Some ''12'') 1 1)) = Inr no_row"
  "fst (getAreaBasedList demo_process empty_list_network (list_query None (Some ''14'') 1 1)) = Inr no_row"
  "fst (getAreaBasedList demo_process empty_list_network (list_query None (Some ''15'') 1 1)) = Inr no_row"
  "fst (getAreaBasedList demo_process empty_list_network (list_query None (Some ''25'') 1 1)) = Inl exhausted_503"
  "fst (getAreaBasedList demo_process empty_list_network (list_query None (Some ''28'') 1 1)) = Inl exhausted_503"
  "fst (getAreaBasedList demo_process empty_list_network (list_query None (Some ''32'') 1 1)) = Inl exhausted_503"
  "fst (getAreaBasedList demo_process empty_list_network (list_query None (Some ''38'') 1 1)) = Inl exhausted_503"
  "fst (getAreaBasedList demo_process empty_list_network (list_query None (Some ''39'') 1 1)) = Inl exhausted_503"
  by code_simp+

lemma example_valid_types:
  "non_null (map (type_query demo_process example_list_network) CONTENT_TYPES) =
     [type_stat ''12'' 10 None, type_stat ''14'' 0 None, type_stat ''15'' 30 None]"
  by (simp del: One_nat_def
        add: CONTENT_TYPES_def type_query_def example_type_queries non_null_Cons type_stat_def
             one_row_def no_row_def)

lemma empty_valid_types:
  "non_null (map (type_query demo_process empty_list_network) CONTENT_TYPES) =
     [type_stat ''12'' 0 None, type_stat ''14'' 0 None, type_stat ''15'' 0 None]"
  by (simp del: One_nat_def
        add: CONTENT_TYPES_def type_query_def empty_type_queries non_null_Cons type_stat_def
             one_row_def no_row_def)

lemma percentage_of_example:
  "percentage_of 10 40 = 25" "percentage_of 0 40 = 0" "percentage_of 30 40 = 75"
  by code_simp+

lemma example_type_stats:
  "getTypeStats demo_process example_list_network =
     Inr [type_stat ''12'' 10 (Some 25), type_stat ''14'' 0 (Some 0), type_stat ''15'' 30 (Some 75)]"
  by (simp add: getTypeStats_unfold example_valid_types with_percentages_def type_stat_def
        percentage_of_example)

lemma empty_type_stats:
  "getTypeStats demo_process empty_list_network =
     Inr [type_stat ''12'' 0 (Some 0), type_stat ''14'' 0 (Some 0), type_stat ''15'' 0 (Some 0)]"
  by (simp add: getTypeStats_unfold empty_valid_types with_percentages_def type_stat_def
        percentage_of_zero_total)

theorem getTypeStats_percentages_witness:
  "getTypeStats demo_process example_list_network =
     Inr [type_stat ''12'' 10 (Some 25), type_stat ''14'' 0 (Some 0), type_stat ''15'' 30 (Some 75)]
 \<and> getTypeStats demo_process empty_list_network =
     Inr [type_stat ''12'' 0 (Some 0), type_stat ''14'' 0 (Some 0), type_stat ''15'' 0 (Some 0)]
 \<and> (\<exists>k. Some (25 :: rat) = Some (fl (of_int k / 10))
        \<and> (k = \<lfloor>of_int (1000 * 10) / of_int 40 + 1 / 2 :: rat\<rfloor>
           \<or> (k = \<lfloor>of_int (1000 * 10) / of_int 40 + 1 / 2 :: rat\<rfloor> - 1
              \<and> (2 * 40 :: int) dvd 2000 * 10 + 40)))"
proof -
  let ?stats = "[type_stat ''12'' 10 (Some 25), type_stat ''14'' 0 (Some 0), type_stat ''15'' 30 (Some 75)]"
  from getTypeStats_percentages [OF example_type_stats]
  obtain valid tot where
    valid: "valid = non_null (map (type_query demo_process example_list_network) getAllContentTypes)"
    and tot: "tot = sum_list (map TypeStats.count valid)"
    and near: "(\<forall>s \<in> set ?stats. 0 \<le> TypeStats.count s) \<and> 0 < tot \<and> tot < 2 ^ 39 \<longrightarrow>
               (\<forall>s \<in> set ?stats. \<exists>k.
                   TypeStats.percentage s = Some (fl (of_int k / 10))
                 \<and> (k = \<lfloor>of_int (1000 * TypeStats.count s) / of_int tot + 1 / 2 :: rat\<rfloor>
                    \<or> (k = \<lfloor>of_int (1000 * TypeStats.count s) / of_int tot + 1 / 2 :: rat\<rfloor> - 1
                       \<and> 2 * tot dvd 2000 * TypeStats.count s + tot)))"
    by blast
  have tot40: "tot = 40"
    by (simp add: tot valid getAllContentTypes_def example_valid_types type_stat_def)
  have "\<forall>s \<in> set ?stats. 0 \<le> TypeStats.count s" by (simp add: type_stat_def)
  with near tot40 have all: "\<forall>s \<in> set ?stats. \<exists>k.
                   TypeStats.percentage s = Some (fl (of_int k / 10))
                 \<and> (k = \<lfloor>of_int (1000 * TypeStats.count s) / of_int 40 + 1 / 2 :: rat\<rfloor>
                    \<or> (k = \<lfloor>of_int (1000 * TypeStats.count s) / of_int 40 + 1 / 2 :: rat\<rfloor> - 1
                       \<and> 2 * 40 dvd 2000 * TypeStats.count s + 40))"
    by simp
  have "type_stat ''12'' 10 (Some 25) \<in> set ?stats" by simp
  from all [rule_format, OF this]
  have "\<exists>k. Some (25 :: rat) = Some (fl (of_int k / 10))
        \<and> (k = \<lfloor>of_int (1000 * 10) / of_int 40 + 1 / 2 :: rat\<rfloor>
           \<or> (k = \<lfloor>of_int (1000 * 10) / of_int 40 + 1 / 2 :: rat\<rfloor> - 1
              \<and> (2 * 40 :: int) dvd 2000 * 10 + 40))"
    by (simp only: type_stat_def TypeStats.select_convs)
  with example_type_stats empty_type_stats show ?thesis by blast
qed

text \<open>
  The steps of \<^verbatim>\<open>(23 / 80) * 100 * 10\<close> in binary64: 0.2875, 28.749999999999996 and
  287.49999999999994, each as the fraction it denotes; \<^verbatim>\<open>23 / 80 * 1000\<close> is 287.5.
\<close>

lemma binary64_one_tenth: "fl (1 / 10) = 3602879701896397 / 2 ^ 55"
  by code_simp

lemma binary64_steps_23_80:
  "fl (23 / 80) = 2589569785738035 / 2 ^ 53"
  "fl (fl (23 / 80) * 100) = 8092405580431359 / 2 ^ 48"
  "fl (fl (fl (23 / 80) * 100) * 10) = 5057753487769599 / 2 ^ 44"
  "Math_round (fl (fl (fl (23 / 80) * 100) * 10)) = 287"
  "fl (fl (23 / 80) * 1000) = 575 / 2"
  "Math_round (fl (fl (23 / 80) * 1000)) = 288"
  by code_simp+

lemma claimed_23_80:
  "claimed_percentage 23 80 = 288 / 10" "claimed_percentage_binary64 23 80 = fl (288 / 10)"
  "fl (287 / 10) < 288 / 10" "fl (287 / 10) < fl (288 / 10)"
  by code_simp+

text \<open>
  C6 as it is stated fails on the formula. With the counts 23 and 57 the exact value of
  \<open>23 / 80 * 1000\<close> is 287.5; the code computes \<^verbatim>\<open>(23 / 80) * 100 * 10\<close> as
  287.49999999999994 and rounds it to 287, so the percentage is 28.7, where
  \<open>round(count / \<Sigma>count * 1000) / 10\<close> is 28.8, in exact arithmetic and in binary64 alike.
\<close>

theorem getTypeStats_percentage_counterexample:
  "getTypeStats demo_process demo_list_network =
     Inr [type_stat ''12'' 23 (Some (fl (287 / 10))), type_stat ''14'' 57 (Some (fl (713 / 10)))]
 \<and> percentage_of 23 (23 + 57) = fl (287 / 10)
 \<and> claimed_percentage 23 (23 + 57) = 288 / 10
 \<and> claimed_percentage_binary64 23 (23 + 57) = fl (288 / 10)
 \<and> fl (287 / 10) < 288 / 10
 \<and> fl (287 / 10) < fl (288 / 10)"
  using demo_type_stats percentage_of_23_80 claimed_23_80 by simp

section \<open>Claims about the recommendation block\<close>

lemma list_ex_contentid:
  "list_ex (\<lambda>rec. TourItem.contentid rec = c) recs \<longleftrightarrow> c \<in> set (map TourItem.contentid recs)"
  by (auto simp: list_ex_iff)

lemma distinct_map_take_filter:
  "distinct (map f xs) \<Longrightarrow> distinct (map f (take n (filter P xs)))"
proof -
  assume "distinct (map f xs)"
  then have "distinct (map f (filter P xs))" by (rule distinct_map_filter)
  then have "distinct (take n (map f (filter P xs)))" by (rule distinct_take)
  then show ?thesis by (simp add: take_map)
qed

lemma set_take_filter: "x \<in> set (take n (filter P xs)) \<Longrightarrow> P x"
  using set_take_subset [of n "filter P xs"] by auto

text \<open>For a subject without region the two revisions of the block agree.\<close>

lemma recommendations_without_region:
  assumes "\<not> truthy (areacode detailData)"
  shows "PlaceDetailContent_recommendations p fetch detailData =
           Inr (PlaceDetailContent_recommendations_earlier p fetch detailData)"
  using assms
  by (simp add: PlaceDetailContent_recommendations_def PlaceDetailContent_recommendations_earlier_def
        same_area_and_type_def same_type_fill_def handle_def split: sum.splits)

text \<open>
  C1, as the code has it. The block never throws. Its result is tier 1 followed by tier 2:
  tier 1 is, for a subject with a region and a successful query for region and category
  (\<^verbatim>\<open>numOfRows\<close> 10), the first 6 items of the page other than the subject, and empty
  otherwise; tier 2 is, when tier 1 has fewer than 6 items and the query for the category
  alone succeeds, the first \<open>6 - |tier 1|\<close> items of its page that are neither the subject
  nor have the identifier of a tier-1 item, and empty otherwise. The result has at most 6
  items, never the subject, and no tier-2 item shares an identifier with a tier-1 item; it
  is free of repeated identifiers whenever neither page repeats one.
\<close>

theorem recommendations_cascade:
  fixes p :: process and fetch :: "('z TourItem_scheme) network" and detailData :: "'y TourDetail_scheme"
  shows "\<exists>tier1 tier2.
           tier1 =
             (if truthy (areacode detailData) then
                (case fst (getAreaBasedList p fetch
                             (list_query (areacode detailData) (Some (contenttypeid detailData)) 10 1)) of
                   Inr r \<Rightarrow> take 6 (filter (\<lambda>i. TourItem.contentid i \<noteq> TourDetail.contentid detailData)
                                      (items r))
                 | Inl e \<Rightarrow> [])
              else [])
         \<and> tier2 =
             (if length tier1 < 6 then
                (case fst (getAreaBasedList p fetch
                             (list_query None (Some (contenttypeid detailData)) 10 1)) of
                   Inr r \<Rightarrow> take (6 - length tier1)
                              (filter (\<lambda>i. TourItem.contentid i \<noteq> TourDetail.contentid detailData
                                          \<and> TourItem.contentid i \<notin> set (map TourItem.contentid tier1))
                                 (items r))
                 | Inl e \<Rightarrow> [])
              else [])
         \<and> PlaceDetailContent_recommendations p fetch detailData = Inr (tier1 @ tier2)
         \<and> length (tier1 @ tier2) \<le> 6
         \<and> TourDetail.contentid detailData \<notin> set (map TourItem.contentid (tier1 @ tier2))
         \<and> set (map TourItem.contentid tier1) \<inter> set (map TourItem.contentid tier2) = {}
         \<and> ((\<forall>r. fst (getAreaBasedList p fetch
                          (list_query (areacode detailData) (Some (contenttypeid detailData)) 10 1)) = Inr r
                   \<longrightarrow> distinct (map TourItem.contentid (items r)))
            \<and> (\<forall>r. fst (getAreaBasedList p fetch
                          (list_query None (Some (contenttypeid detailData)) 10 1)) = Inr r
                   \<longrightarrow> distinct (map TourItem.contentid (items r)))
            \<longrightarrow> distinct (map TourItem.contentid (tier1 @ tier2)))"
proof -
  define subject where "subject = TourDetail.contentid detailData"
  define q1 where "q1 = fst (getAreaBasedList p fetch
                        (list_query (areacode detailData) (Some (contenttypeid detailData)) 10 1))"
  define q2 where "q2 = fst (getAreaBasedList p fetch
                        (list_query None (Some (contenttypeid detailData)) 10 1))"
  define tier1 where "tier1 =
     (if truthy (areacode detailData) then
        (case q1 of
           Inr r \<Rightarrow> take 6 (filter (\<lambda>i. TourItem.contentid i \<noteq> subject) (items r))
         | Inl e \<Rightarrow> [])
      else [])"
  define tier2 where "tier2 =
     (if length tier1 < 6 then
        (case q2 of
           Inr r \<Rightarrow> take (6 - length tier1)
                      (filter (\<lambda>i. TourItem.contentid i \<noteq> subject
                                  \<and> TourItem.contentid i \<notin> set (map TourItem.contentid tier1))
                         (items r))
         | Inl e \<Rightarrow> [])
      else [])"
  have t1: "same_area_and_type p fetch detailData = tier1"
    unfolding tier1_def q1_def subject_def same_area_and_type_def by (rule refl)
  have t2: "same_type_fill p fetch detailData tier1 = tier1 @ tier2"
    unfolding tier2_def q2_def subject_def same_type_fill_def
    by (simp add: list_ex_contentid split: sum.splits)
  have run: "PlaceDetailContent_recommendations p fetch detailData = Inr (tier1 @ tier2)"
    by (simp add: PlaceDetailContent_recommendations_def handle_def t1 t2)
  have shape1: "tier1 = [] \<or> (\<exists>r. q1 = Inr r \<and>
                   tier1 = take 6 (filter (\<lambda>i. TourItem.contentid i \<noteq> subject) (items r)))"
    unfolding tier1_def by (cases q1) auto
  have shape2: "tier2 = [] \<or> (\<exists>r. q2 = Inr r \<and>
                   tier2 = take (6 - length tier1)
                             (filter (\<lambda>i. TourItem.contentid i \<noteq> subject
                                         \<and> TourItem.contentid i \<notin> set (map TourItem.contentid tier1))
                                (items r)))"
    unfolding tier2_def by (cases q2) auto
  have len1: "length tier1 \<le> 6"
    using shape1 by auto
  have len: "length (tier1 @ tier2) \<le> 6"
    using shape2 len1 by auto
  have no1: "subject \<notin> set (map TourItem.contentid tier1)"
    using shape1 by (auto dest: set_take_filter)
  have in2: "TourItem.contentid i \<noteq> subject \<and> TourItem.contentid i \<notin> set (map TourItem.contentid tier1)"
    if "i \<in> set tier2" for i
    using shape2 that by (auto dest!: set_take_filter)
  have no: "subject \<notin> set (map TourItem.contentid (tier1 @ tier2))"
    using no1 in2 by auto
  have disj: "set (map TourItem.contentid tier1) \<inter> set (map TourItem.contentid tier2) = {}"
  proof (rule ccontr)
    assume "set (map TourItem.contentid tier1) \<inter> set (map TourItem.contentid tier2) \<noteq> {}"
    then obtain c where c1: "c \<in> set (map TourItem.contentid tier1)"
      and c2: "c \<in> set (map TourItem.contentid tier2)" by blast
    from c2 obtain i where "i \<in> set tier2" and "TourItem.contentid i = c" by auto
    with in2 [of i] c1 show False by simp
  qed
  have dist: "distinct (map TourItem.contentid (tier1 @ tier2))"
    if h: "(\<forall>r. q1 = Inr r \<longrightarrow> distinct (map TourItem.contentid (items r)))
         \<and> (\<forall>r. q2 = Inr r \<longrightarrow> distinct (map TourItem.contentid (items r)))"
  proof -
    have d1: "distinct (map TourItem.contentid tier1)"
      using h shape1 by (auto intro: distinct_map_take_filter)
    have d2: "distinct (map TourItem.contentid tier2)"
      using h shape2 by (auto intro: distinct_map_take_filter)
    show ?thesis using d1 d2 disj by simp
  qed
  have "tier1 =
             (if truthy (areacode detailData) then
                (case fst (getAreaBasedList p fetch
                             (list_query (areacode detailData) (Some (contenttypeid detailData)) 10 1)) of
                   Inr r \<Rightarrow> take 6 (filter (\<lambda>i. TourItem.contentid i \<noteq> TourDetail.contentid detailData)
                                      (items r))
                 | Inl e \<Rightarrow> [])
              else [])"
    unfolding tier1_def q1_def subject_def by (rule refl)
  moreover have "tier2 =
             (if length tier1 < 6 then
                (case fst (getAreaBasedList p fetch
                             (list_query None (Some (contenttypeid detailData)) 10 1)) of
                   Inr r \<Rightarrow> take (6 - length tier1)
                              (filter (\<lambda>i. TourItem.contentid i \<noteq> TourDetail.contentid detailData
                                          \<and> TourItem.contentid i \<notin> set (map TourItem.contentid tier1))
                                 (items r))
                 | Inl e \<Rightarrow> [])
              else [])"
    unfolding tier2_def q2_def subject_def by (rule refl)
  moreover note run len
  moreover have "TourDetail.contentid detailData \<notin> set (map TourItem.contentid (tier1 @ tier2))"
    using no by (simp add: subject_def)
  moreover note disj
  moreover have "(\<forall>r. fst (getAreaBasedList p fetch
                          (list_query (areacode detailData) (Some (contenttypeid detailData)) 10 1)) = Inr r
                   \<longrightarrow> distinct (map TourItem.contentid (items r)))
            \<and> (\<forall>r. fst (getAreaBasedList p fetch
                          (list_query None (Some (contenttypeid detailData)) 10 1)) = Inr r
                   \<longrightarrow> distinct (map TourItem.contentid (items r)))
            \<longrightarrow> distinct (map TourItem.contentid (tier1 @ tier2))"
    using dist by (simp add: q1_def q2_def)
  ultimately show ?thesis by blast
qed

lemma demo_page_queries:
  "fst (getAreaBasedList demo_process (page_network area_page type_page)
          (list_query (Some ''1'') (Some ''12'') 10 1)) = Inr (page_of area_page 10)"
  "fst (getAreaBasedList demo_process (page_network area_page type_page)
          (list_query None (Some ''12'') 10 1)) = Inr (page_of type_page 10)"
  by code_simp+

lemma repeating_page_queries:
  "fst (getAreaBasedList demo_process (page_network repeating_page repeating_page)
          (list_query (Some ''1'') (Some ''12'') 10 1)) = Inr (page_of repeating_page 10)"
  "fst (getAreaBasedList demo_process (page_network repeating_page repeating_page)
          (list_query None (Some ''12'') 10 1)) = Inr (page_of repeating_page 10)"
  by code_simp+

lemma demo_recommendations:
  "PlaceDetailContent_recommendations demo_process (page_network area_page type_page) demo_detail
     = Inr [tour_item ''a'', tour_item ''b'', tour_item ''c'', tour_item ''d'',
            tour_item ''e'', tour_item ''f'']"
proof -
  have tier1: "same_area_and_type demo_process (page_network area_page type_page) demo_detail
                 = [tour_item ''a'', tour_item ''b'', tour_item ''c'', tour_item ''d'']"
    by (simp del: One_nat_def
          add: same_area_and_type_def demo_page_queries demo_detail_def truthy_def page_of_def)
       (simp add: area_page_def tour_item_def)
  have tier2: "same_type_fill demo_process (page_network area_page type_page) demo_detail
                 [tour_item ''a'', tour_item ''b'', tour_item ''c'', tour_item ''d'']
               = [tour_item ''a'', tour_item ''b'', tour_item ''c'', tour_item ''d'',
                  tour_item ''e'', tour_item ''f'']"
    by (simp del: One_nat_def
          add: same_type_fill_def demo_page_queries demo_detail_def page_of_def)
       (simp add: type_page_def tour_item_def)
  show ?thesis
    by (simp add: PlaceDetailContent_recommendations_def handle_def tier1 tier2)
qed

theorem recommendations_cascade_witness:
  "PlaceDetailContent_recommendations demo_process (page_network area_page type_page) demo_detail
     = Inr [tour_item ''a'', tour_item ''b'', tour_item ''c'', tour_item ''d'',
            tour_item ''e'', tour_item ''f'']
 \<and> distinct (map TourItem.contentid area_page) \<and> distinct (map TourItem.contentid type_page)
 \<and> distinct (map TourItem.contentid
      [tour_item ''a'', tour_item ''b'', tour_item ''c'', tour_item ''d'',
       tour_item ''e'', tour_item ''f''])"
proof -
  have pages: "distinct (map TourItem.contentid area_page)" "distinct (map TourItem.contentid type_page)"
    by (simp_all add: area_page_def type_page_def tour_item_def)
  have detail: "areacode demo_detail = Some ''1''" "contenttypeid demo_detail = ''12''"
    by (simp_all add: demo_detail_def)
  from recommendations_cascade
         [where p = demo_process and fetch = "page_network area_page type_page"
            and detailData = demo_detail]
  obtain tier1 tier2 where
    run: "PlaceDetailContent_recommendations demo_process (page_network area_page type_page) demo_detail
            = Inr (tier1 @ tier2)"
    and unique: "(\<forall>r. fst (getAreaBasedList demo_process (page_network area_page type_page)
                          (list_query (areacode demo_detail) (Some (contenttypeid demo_detail)) 10 1)) = Inr r
                   \<longrightarrow> distinct (map TourItem.contentid (items r)))
            \<and> (\<forall>r. fst (getAreaBasedList demo_process (page_network area_page type_page)
                          (list_query None (Some (contenttypeid demo_detail)) 10 1)) = Inr r
                   \<longrightarrow> distinct (map TourItem.contentid (items r)))
            \<longrightarrow> distinct (map TourItem.contentid (tier1 @ tier2))"
    by blast
  have "distinct (map TourItem.contentid (tier1 @ tier2))"
  proof (rule unique [rule_format], intro conjI allI impI)
    fix r
    assume "fst (getAreaBasedList demo_process (page_network area_page type_page)
                          (list_query (areacode demo_detail) (Some (contenttypeid demo_detail)) 10 1)) = Inr r"
    then have "r = page_of area_page 10" by (simp only: detail demo_page_queries sum.inject)
    then show "distinct (map TourItem.contentid (items r))" using pages by (simp add: page_of_def)
  next
    fix r
    assume "fst (getAreaBasedList demo_process (page_network area_page type_page)
                          (list_query None (Some (contenttypeid demo_detail)) 10 1)) = Inr r"
    then have "r = page_of type_page 10" by (simp only: detail demo_page_queries sum.inject)
    then show "distinct (map TourItem.contentid (items r))" using pages by (simp add: page_of_def)
  qed
  with run demo_recommendations pages show ?thesis by simp
qed

text \<open>
  C1 as it is stated fails: the block removes from tier 2 what tier 1 holds, but it does not
  remove a repetition inside a page. With a page \<open>a, b, a\<close> the result holds \<open>a\<close> twice.
\<close>

theorem recommendations_repeat_counterexample:
  "PlaceDetailContent_recommendations demo_process (page_network repeating_page repeating_page) demo_detail
     = Inr [tour_item ''a'', tour_item ''b'', tour_item ''a'']
 \<and> \<not> distinct (map TourItem.contentid [tour_item ''a'', tour_item ''b'', tour_item ''a''])"
proof -
  have tier1: "same_area_and_type demo_process (page_network repeating_page repeating_page) demo_detail
                 = [tour_item ''a'', tour_item ''b'', tour_item ''a'']"
    by (simp del: One_nat_def
          add: same_area_and_type_def repeating_page_queries demo_detail_def truthy_def page_of_def)
       (simp add: repeating_page_def tour_item_def)
  have tier2: "same_type_fill demo_process (page_network repeating_page repeating_page) demo_detail
                 [tour_item ''a'', tour_item ''b'', tour_item ''a'']
               = [tour_item ''a'', tour_item ''b'', tour_item ''a'']"
    by (simp del: One_nat_def
          add: same_type_fill_def repeating_page_queries demo_detail_def page_of_def)
       (simp add: repeating_page_def tour_item_def)
  show ?thesis
    by (simp add: PlaceDetailContent_recommendations_def handle_def tier1 tier2)
qed

end
